theory Spec2Isabelle
  imports Main
begin

section \<open>JavaScript string operations used by the sources\<close>

text \<open>
  Strings are lists of characters, one \<^typ>\<open>char\<close> per code unit; only code units
  below 256 are represented. The empty string is the only falsy string of JavaScript.
\<close>

definition truthy :: "string \<Rightarrow> bool" where
  "truthy s = (s \<noteq> [])"

text \<open>A value of type \<open>string | null | undefined\<close>: \<open>None\<close> is null or undefined.\<close>

definition truthy_opt :: "string option \<Rightarrow> bool" where
  "truthy_opt v = (case v of None \<Rightarrow> False | Some s \<Rightarrow> truthy s)"

text \<open>
  The white space of \<open>String.prototype.trim\<close> and of the regular expression class
  \<open>\s\<close>, restricted to code units below 256: TAB, LF, VT, FF, CR, SPACE and NBSP.
\<close>

definition isWhiteSpace :: "char \<Rightarrow> bool" where
  "isWhiteSpace c =
     (c \<in> set [CHR 0x09, CHR 0x0A, CHR 0x0B, CHR 0x0C, CHR 0x0D, CHR 0x20, CHR 0xA0])"

text \<open>\<open>s.startsWith(p)\<close>\<close>

definition js_startsWith :: "string \<Rightarrow> string \<Rightarrow> bool" where
  "js_startsWith s p = (take (length p) s = p)"

text \<open>\<open>s.endsWith(p)\<close>; not called by the sources, used to state where a delimiter begins.\<close>

definition js_endsWith :: "string \<Rightarrow> string \<Rightarrow> bool" where
  "js_endsWith s p = js_startsWith (rev s) (rev p)"

text \<open>\<open>s.includes(p)\<close>\<close>

fun js_includes :: "string \<Rightarrow> string \<Rightarrow> bool" where
  "js_includes [] p = (p = [])"
| "js_includes (c # cs) p = (js_startsWith (c # cs) p \<or> js_includes cs p)"

text \<open>
  \<open>s.split(sep)\<close> with a string separator and no limit: the string is cut at every
  occurrence of the separator found scanning from the left, occurrences do not overlap,
  and an empty separator cuts between all code units.
\<close>

fun js_split :: "string \<Rightarrow> string \<Rightarrow> string list" where
  "js_split [] sep = (if sep = [] then [] else [[]])"
| "js_split (c # cs) sep =
     (if sep = [] then [c] # js_split cs sep
      else if js_startsWith (c # cs) sep
        then [] # js_split (drop (length sep) (c # cs)) sep
      else (case js_split cs sep of [] \<Rightarrow> [[c]] | p # ps \<Rightarrow> (c # p) # ps))"

text \<open>
  \<open>s.replace(pat, rep)\<close> with a string pattern: only the first occurrence is replaced.
  The sources only pass the replacement \<open>''\<close>, so the \<open>$\<close> patterns of the replacement
  string play no role.
\<close>

fun js_replace :: "string \<Rightarrow> string \<Rightarrow> string \<Rightarrow> string" where
  "js_replace [] pat rep = (if pat = [] then rep else [])"
| "js_replace (c # cs) pat rep =
     (if js_startsWith (c # cs) pat then rep @ drop (length pat) (c # cs)
      else c # js_replace cs pat rep)"

text \<open>\<open>parts.join(sep)\<close>; not called by the sources, used to state what a split returns.\<close>

fun js_join :: "string list \<Rightarrow> string \<Rightarrow> string" where
  "js_join [] sep = []"
| "js_join [p] sep = p"
| "js_join (p # q # ps) sep = p @ sep @ js_join (q # ps) sep"

text \<open>\<open>s.trim()\<close>\<close>

definition js_trim :: "string \<Rightarrow> string" where
  "js_trim s = rev (dropWhile isWhiteSpace (rev (dropWhile isWhiteSpace s)))"

text \<open>
  \<open>line.replace(/^[\*\-]\s+/, '')\<close>: when the line begins with an asterisk or a hyphen
  followed by at least one white space character, that character and all the white
  space after it are removed; any other line is returned as it is.
\<close>

definition replaceBulletMarker :: "string \<Rightarrow> string" where
  "replaceBulletMarker line =
     (case line of
        [] \<Rightarrow> []
      | c # rest \<Rightarrow>
          (if (c = CHR ''*'' \<or> c = CHR ''-'') \<and> rest \<noteq> [] \<and> isWhiteSpace (hd rest)
           then dropWhile isWhiteSpace rest
           else line))"

section \<open>Response renderer (\<open>renderContent\<close> of the output display)\<close>

text \<open>
  The children of a paragraph: a plain string or a \<open>strong\<close> element. The elements the
  renderer returns, one per line: \<open>h3\<close>, \<open>h2\<close>, \<open>li\<close>, \<open>p\<close> and the empty \<open>div\<close> that
  serves as vertical spacer. The React key of each element is its position in the
  returned list; class names are presentation and are left out.
\<close>

datatype run = Plain string | Strong string

datatype element = H3 string | H2 string | Li string | P "run list" | Div

text \<open>\<open>parts.map((part, i) => (i % 2 === 1 ? <strong>{part}</strong> : part))\<close>\<close>

definition boldRuns :: "string list \<Rightarrow> run list" where
  "boldRuns parts =
     map (\<lambda>(i, part). if i mod 2 = 1 then Strong part else Plain part) (enumerate 0 parts)"

text \<open>The body of the callback of \<open>lines.map\<close>, its tests in the order of the source.\<close>

definition renderLine :: "string \<Rightarrow> element" where
  "renderLine line =
     (if js_startsWith line ''## '' then H3 (js_replace line ''## '' '''')
      else if js_startsWith line ''# '' then H2 (js_replace line ''# '' '''')
      else if js_startsWith (js_trim line) ''* '' \<or> js_startsWith (js_trim line) ''- ''
        then Li (replaceBulletMarker line)
      else if js_includes line ''**'' then P (boldRuns (js_split line ''**''))
      else if js_trim line = '''' then Div
      else P [Plain line])"

definition renderContent :: "string \<Rightarrow> element list" where
  "renderContent text = map renderLine (js_split text ''\<newline>'')"

section \<open>Data model (\<open>types.ts\<close>)\<close>

datatype AppMode = DESCRIBE | SIMPLIFY | GUIDE

text \<open>
  The fields of the interfaces carry a prefix, since several interfaces and the state of
  the application share field names. An optional field is an option: \<open>None\<close> is the
  absent (undefined) field.
\<close>

record AnalysisRequest =
  req_text :: string
  req_imageBase64 :: "string option"
  req_imageMimeType :: "string option"
  req_mode :: AppMode

record AnalysisResponse =
  res_markdown :: string
  res_error :: "string option"

record HistoryItem =
  item_id :: string
  item_timestamp :: nat
  item_mode :: AppMode
  item_inputText :: string
  item_response :: string
  item_hasImage :: bool

section \<open>The environment of the program\<close>

text \<open>
  A thrown value is an error object, as \<open>new Error(...)\<close> and the SDK produce them;
  its \<open>message\<close> property may be missing or empty. The outcome of the call of the
  generative model is a rejection with a thrown value (whatever the SDK throws between
  building the client and reading \<open>response.text\<close>) or a response, whose \<open>text\<close> may be
  undefined.
\<close>

datatype thrown = JsError "string option"

datatype part = InlineData string string | TextPart string

datatype generateOutcome = Rejects thrown | Resolves "string option"

type_synonym storage = "string \<rightharpoonup> string"

text \<open>
  What the program reads from outside and does not define: the API key of the process
  environment, the model behind \<open>client.models.generateContent\<close> (a function of the key
  the client was built with and of the contents; the model identifier, the system
  instruction and the temperature are the same constants in every call), the two
  readings of \<open>Date.now()\<close> that \<open>addToHistory\<close> makes, \<open>JSON.stringify\<close> on a history,
  and \<open>localStorage.setItem\<close>, which returns the updated storage or throws.
\<close>

record env =
  API_KEY :: "string option"
  generateContent :: "string \<Rightarrow> part list \<Rightarrow> generateOutcome"
  now_first :: nat
  now_second :: nat
  stringify :: "HistoryItem list \<Rightarrow> string"
  setItem :: "string \<Rightarrow> string \<Rightarrow> storage \<Rightarrow> thrown + storage"

text \<open>
  What the program does to the outside, as an explicit state: the requests
  \<open>analyzeContent\<close> was called with, the contents dispatched to the model, the
  \<open>console.error\<close> lines (label and thrown value), each oldest first, and the local
  storage.
\<close>

record world =
  calls :: "AnalysisRequest list"
  dispatched :: "part list list"
  console :: "(string \<times> thrown) list"
  localStorage :: storage

section \<open>Analysis client (\<open>services/geminiService.ts\<close>)\<close>

definition getClient :: "env \<Rightarrow> thrown + string" where
  "getClient e =
     (case API_KEY e of
        None \<Rightarrow> Inl (JsError (Some ''API Key not found in environment variables''))
      | Some apiKey \<Rightarrow>
          (if \<not> truthy apiKey
           then Inl (JsError (Some ''API Key not found in environment variables''))
           else Inr apiKey))"

text \<open>\<open>request.imageBase64.split(',')[1] || request.imageBase64\<close>\<close>

definition base64Data :: "string \<Rightarrow> string" where
  "base64Data imageBase64 =
     (case js_split imageBase64 '','' of
        _ # second # _ \<Rightarrow> (if truthy second then second else imageBase64)
      | _ \<Rightarrow> imageBase64)"

text \<open>
  Lines 21 to 56 of \<open>analyzeContent\<close>: the list \<open>parts\<close> starts empty, receives the
  inline image when both image fields are truthy, and then the text part with the prompt,
  which is built by two appends.
\<close>

definition composeParts :: "AnalysisRequest \<Rightarrow> part list" where
  "composeParts request =
     (let parts0 = [];
          parts1 =
            (case req_imageBase64 request of
               None \<Rightarrow> parts0
             | Some imageBase64 \<Rightarrow>
                 (case req_imageMimeType request of
                    None \<Rightarrow> parts0
                  | Some imageMimeType \<Rightarrow>
                      (if truthy imageBase64 \<and> truthy imageMimeType
                       then parts0 @ [InlineData imageMimeType (base64Data imageBase64)]
                       else parts0)));
          prompt0 = '''';
          prompt1 =
            (if truthy (req_text request)
             then prompt0 @ ''User Input: '' @ [CHR 0x22] @ req_text request
                    @ [CHR 0x22, CHR 0x0A, CHR 0x0A]
             else prompt0 @ ''Analyze the provided image.'' @ [CHR 0x0A, CHR 0x0A]);
          prompt2 =
            (case req_mode request of
               DESCRIBE \<Rightarrow> prompt1 @ ''Task: Perform a 'Describe' analysis. Focus on layout, sections, and accessibility relevant details.''
             | SIMPLIFY \<Rightarrow> prompt1 @ ''Task: Perform a 'Simplify' analysis. Extract text and rewrite it in plain, simple language with bullet points.''
             | GUIDE \<Rightarrow> prompt1 @ ''Task: Perform a 'Guide' analysis. Provide step-by-step instructions on how to interact with this content.'')
      in parts1 @ [TextPart prompt2])"

text \<open>
  The \<open>try\<close> block: every \<open>throw\<close> and every rejection of the awaited call is an
  \<open>Inl\<close>. The contents are recorded as dispatched when \<open>generateContent\<close> is called.
\<close>

definition analyzeContent_try ::
  "env \<Rightarrow> AnalysisRequest \<Rightarrow> world \<Rightarrow> (thrown + AnalysisResponse) \<times> world" where
  "analyzeContent_try e request w =
     (case getClient e of
        Inl ex \<Rightarrow> (Inl ex, w)
      | Inr client \<Rightarrow>
          (let parts = composeParts request;
               w1 = w\<lparr>dispatched := dispatched w @ [parts]\<rparr>
           in case generateContent e client parts of
                Rejects ex \<Rightarrow> (Inl ex, w1)
              | Resolves None \<Rightarrow>
                  (Inl (JsError (Some ''No response generated from the model.'')), w1)
              | Resolves (Some response_text) \<Rightarrow>
                  (if \<not> truthy response_text
                   then (Inl (JsError (Some ''No response generated from the model.'')), w1)
                   else (Inr \<lparr>res_markdown = response_text, res_error = None\<rparr>, w1))))"

text \<open>\<open>error.message || "An unexpected error occurred while processing your request."\<close>\<close>

definition errorMessage :: "thrown \<Rightarrow> string" where
  "errorMessage ex =
     (case ex of
        JsError None \<Rightarrow> ''An unexpected error occurred while processing your request.''
      | JsError (Some message) \<Rightarrow>
          (if truthy message then message
           else ''An unexpected error occurred while processing your request.''))"

text \<open>
  \<open>analyzeContent\<close>: the \<open>try\<close> block and the \<open>catch\<close> clause, which logs the thrown value
  and returns a response. The result is the value the returned promise is fulfilled
  with; no path of the source rejects it.
\<close>

definition analyzeContent ::
  "env \<Rightarrow> AnalysisRequest \<Rightarrow> world \<Rightarrow> AnalysisResponse \<times> world" where
  "analyzeContent e request w =
     (case analyzeContent_try e request (w\<lparr>calls := calls w @ [request]\<rparr>) of
        (Inr response, w1) \<Rightarrow> (response, w1)
      | (Inl ex, w1) \<Rightarrow>
          (\<lparr>res_markdown = '''', res_error = Some (errorMessage ex)\<rparr>,
           w1\<lparr>console := console w1 @ [(''Gemini API Error:'', ex)]\<rparr>))"

section \<open>Session controller (the \<open>App\<close> component)\<close>

text \<open>
  The state variables of the component that the modelled handlers read or write. A
  handler is a function from the state at its call to the state after all its updates
  have been applied.
\<close>

record AppState =
  selectedMode :: AppMode
  inputText :: string
  selectedImage :: "string option"
  imageMimeType :: "string option"
  isAnalyzing :: bool
  responseContent :: string
  error :: "string option"
  history :: "HistoryItem list"
  showHistory :: bool

text \<open>\<open>Number.prototype.toString\<close> on a non-negative integer below \<open>10^21\<close>: its decimal digits.\<close>

definition digitChar :: "nat \<Rightarrow> char" where
  "digitChar d = ''0123456789'' ! (d mod 10)"

fun toString :: "nat \<Rightarrow> string" where
  "toString n = (if n < 10 then [digitChar n] else toString (n div 10) @ [digitChar n])"

declare toString.simps [simp del]

definition newItem :: "env \<Rightarrow> string \<Rightarrow> string \<Rightarrow> AppState \<Rightarrow> HistoryItem" where
  "newItem e text response s =
     \<lparr>item_id = toString (now_first e),
      item_timestamp = now_second e,
      item_mode = selectedMode s,
      item_inputText = text,
      item_response = response,
      item_hasImage = truthy_opt (selectedImage s)\<rparr>"

definition addToHistory ::
  "env \<Rightarrow> string \<Rightarrow> string \<Rightarrow> AppState \<Rightarrow> world \<Rightarrow> AppState \<times> world" where
  "addToHistory e text response s w =
     (let updatedHistory = newItem e text response s # history s;
          s1 = s\<lparr>history := updatedHistory\<rparr>
      in case setItem e ''accessibility_app_history'' (stringify e updatedHistory)
                (localStorage w) of
           Inr stored \<Rightarrow> (s1, w\<lparr>localStorage := stored\<rparr>)
         | Inl ex \<Rightarrow>
             (s1, w\<lparr>console := console w
                      @ [(''Failed to save history - likely quota exceeded'', ex)]\<rparr>))"

definition loadHistoryItem :: "HistoryItem \<Rightarrow> AppState \<Rightarrow> AppState" where
  "loadHistoryItem item s =
     (let s1 = s\<lparr>selectedMode := item_mode item,
                 inputText := item_inputText item,
                 responseContent := item_response item,
                 error := None,
                 showHistory := False\<rparr>
      in if item_hasImage item
         then s1\<lparr>selectedImage := None, imageMimeType := None\<rparr>
         else s1)"

text \<open>\<open>value || undefined\<close>\<close>

definition orUndefined :: "string option \<Rightarrow> string option" where
  "orUndefined v = (if truthy_opt v then v else None)"

text \<open>The request that \<open>handleSubmit\<close> builds from the state.\<close>

definition requestOf :: "AppState \<Rightarrow> AnalysisRequest" where
  "requestOf s =
     \<lparr>req_text = inputText s,
      req_imageBase64 = orUndefined (selectedImage s),
      req_imageMimeType = orUndefined (imageMimeType s),
      req_mode = selectedMode s\<rparr>"

definition handleSubmit :: "env \<Rightarrow> AppState \<Rightarrow> world \<Rightarrow> AppState \<times> world" where
  "handleSubmit e s w =
     (if \<not> truthy (inputText s) \<and> \<not> truthy_opt (selectedImage s)
      then (s\<lparr>error := Some ''Please provide either text or an image to analyze.''\<rparr>, w)
      else
        (let s1 = s\<lparr>isAnalyzing := True, error := None, responseContent := ''''\<rparr>;
             (result, w1) = analyzeContent e (requestOf s) w;
             s2 = s1\<lparr>isAnalyzing := False\<rparr>
         in if truthy_opt (res_error result)
            then (s2\<lparr>error := res_error result\<rparr>, w1)
            else addToHistory e (inputText s) (res_markdown result)
                   (s2\<lparr>responseContent := res_markdown result\<rparr>) w1))"

section \<open>The prompt composer in the words of the specification\<close>

text \<open>
  The specification describes the text segment as a quoted echo of the user's text, or a
  fallback when there is none, followed by one fixed instruction per mode. These two
  functions state that description; \<open>composeParts\<close> above is the code.
\<close>

definition userEcho :: "string \<Rightarrow> string" where
  "userEcho text =
     (if text = '''' then ''Analyze the provided image.'' @ [CHR 0x0A, CHR 0x0A]
      else ''User Input: '' @ [CHR 0x22] @ text @ [CHR 0x22, CHR 0x0A, CHR 0x0A])"

fun taskInstruction :: "AppMode \<Rightarrow> string" where
  "taskInstruction DESCRIBE = ''Task: Perform a 'Describe' analysis. Focus on layout, sections, and accessibility relevant details.''"
| "taskInstruction SIMPLIFY = ''Task: Perform a 'Simplify' analysis. Extract text and rewrite it in plain, simple language with bullet points.''"
| "taskInstruction GUIDE = ''Task: Perform a 'Guide' analysis. Provide step-by-step instructions on how to interact with this content.''"

section \<open>Concrete environments and states\<close>

text \<open>
  An environment with a fixed key and a model that answers every call with the same
  outcome; its storage accepts a write or throws, as the flag says.
\<close>

definition fixedEnv :: "string option \<Rightarrow> generateOutcome \<Rightarrow> bool \<Rightarrow> env" where
  "fixedEnv key outcome writable =
     \<lparr>API_KEY = key,
      generateContent = (\<lambda>client parts. outcome),
      now_first = 1700000000000,
      now_second = 1700000000001,
      stringify = (\<lambda>items. concat (map item_id items)),
      setItem = (\<lambda>k v stored.
        if writable then Inr (stored(k \<mapsto> v))
        else Inl (JsError (Some ''QuotaExceededError'')))\<rparr>"

definition emptyWorld :: world where
  "emptyWorld = \<lparr>calls = [], dispatched = [], console = [], localStorage = Map.empty\<rparr>"

text \<open>The initial values of the state variables of \<open>App\<close>.\<close>

definition initialState :: AppState where
  "initialState =
     \<lparr>selectedMode = DESCRIBE, inputText = '''', selectedImage = None,
      imageMimeType = None, isAnalyzing = False, responseContent = '''',
      error = None, history = [], showHistory = False\<rparr>"

text \<open>A request with text and no image, and a state in which that text has been typed.\<close>

definition helloRequest :: AnalysisRequest where
  "helloRequest =
     \<lparr>req_text = ''Hello'', req_imageBase64 = None, req_imageMimeType = None,
      req_mode = DESCRIBE\<rparr>"

definition helloState :: AppState where
  "helloState = initialState\<lparr>inputText := ''Hello''\<rparr>"

section \<open>Facts about splitting\<close>

lemma js_split_not_Nil: "sep \<noteq> [] \<Longrightarrow> js_split s sep \<noteq> []"
  by (cases s) (auto split: list.splits)

lemma js_join_split: "sep \<noteq> [] \<Longrightarrow> js_join (js_split s sep) sep = s"
proof (induction s sep rule: js_split.induct)
  case (1 sep)
  then show ?case by simp
next
  case (2 c cs sep)
  show ?case
  proof (cases "js_startsWith (c # cs) sep")
    case True
    obtain p ps where sp: "js_split (drop (length sep) (c # cs)) sep = p # ps"
      using js_split_not_Nil [OF "2.prems"] by (cases "js_split (drop (length sep) (c # cs)) sep") auto
    have "js_join (js_split (drop (length sep) (c # cs)) sep) sep = drop (length sep) (c # cs)"
      using "2.IH"(2) "2.prems" True by simp
    moreover have "sep @ drop (length sep) (c # cs) = c # cs"
      using True by (metis append_take_drop_id js_startsWith_def)
    ultimately show ?thesis using True "2.prems" sp by simp
  next
    case False
    obtain p ps where sp: "js_split cs sep = p # ps"
      using js_split_not_Nil [OF "2.prems"] by (cases "js_split cs sep") auto
    have "js_join (js_split cs sep) sep = cs"
      using "2.IH"(3) "2.prems" False by simp
    then show ?thesis using False "2.prems" sp by (cases ps) auto
  qed
qed

lemma js_startsWith_iff: "js_startsWith s p \<longleftrightarrow> (\<exists>t. s = p @ t)"
proof
  assume "js_startsWith s p"
  then have "s = p @ drop (length p) s"
    by (metis append_take_drop_id js_startsWith_def)
  then show "\<exists>t. s = p @ t" ..
next
  assume "\<exists>t. s = p @ t"
  then show "js_startsWith s p" by (auto simp: js_startsWith_def)
qed

lemma js_startsWith_longer:
  "js_startsWith (c # p) sep \<Longrightarrow> js_startsWith (c # p @ r) sep"
  unfolding js_startsWith_iff by (metis append_Cons append_assoc)

lemma js_split_parts_free:
  "sep \<noteq> [] \<Longrightarrow> p \<in> set (js_split s sep) \<Longrightarrow> \<not> js_includes p sep"
proof (induction s sep arbitrary: p rule: js_split.induct)
  case (1 sep)
  then show ?case by simp
next
  case (2 c cs sep)
  show ?case
  proof (cases "js_startsWith (c # cs) sep")
    case True
    with "2.prems" have "p = [] \<or> p \<in> set (js_split (drop (length sep) (c # cs)) sep)"
      by auto
    then show ?thesis
      using "2.IH"(2) "2.prems"(1) True by auto
  next
    case False
    obtain q qs where sp: "js_split cs sep = q # qs"
      using js_split_not_Nil [OF "2.prems"(1)] by (cases "js_split cs sep") auto
    have free: "\<And>r. r \<in> set (q # qs) \<Longrightarrow> \<not> js_includes r sep"
      using "2.IH"(3) "2.prems"(1) False sp by simp
    from "2.prems" False sp have "p = c # q \<or> p \<in> set qs" by auto
    then show ?thesis
    proof
      assume pq: "p = c # q"
      have "js_join (q # qs) sep = cs"
        using js_join_split [OF "2.prems"(1), of cs] sp by simp
      then obtain r where cs: "cs = q @ r" by (cases qs) auto
      have "\<not> js_startsWith (c # q) sep"
        using False js_startsWith_longer [of c q sep r] cs by auto
      moreover have "\<not> js_includes q sep" using free by simp
      ultimately show ?thesis using pq by simp
    next
      assume "p \<in> set qs"
      then show ?thesis using free by simp
    qed
  qed
qed

lemma js_split_no_sep: "sep \<noteq> [] \<Longrightarrow> \<not> js_includes s sep \<Longrightarrow> js_split s sep = [s]"
  by (induction s) auto

lemma js_startsWith_append:
  "length p \<le> length s \<Longrightarrow> js_startsWith (s @ t) p = js_startsWith s p"
  by (simp add: js_startsWith_def)

lemma js_split_first:
  "sep \<noteq> [] \<Longrightarrow> \<not> js_includes (a @ butlast sep) sep \<Longrightarrow>
   js_split (a @ sep @ rest) sep = a # js_split rest sep"
proof (induction a)
  case Nil
  then show ?case by (cases sep) (auto simp: js_startsWith_def)
next
  case (Cons x a)
  have len: "length sep \<le> length (x # a @ butlast sep)" by simp
  from Cons.prems have ns: "\<not> js_startsWith (x # a @ butlast sep) sep"
    and ni: "\<not> js_includes (a @ butlast sep) sep" by auto
  have "(x # a @ sep @ rest) = (x # a @ butlast sep) @ (last sep # rest)"
    using Cons.prems(1) by simp
  then have "js_startsWith (x # a @ sep @ rest) sep = js_startsWith (x # a @ butlast sep) sep"
    using js_startsWith_append[OF len] by metis
  with ns have "\<not> js_startsWith (x # a @ sep @ rest) sep" by simp
  moreover have "js_split (a @ sep @ rest) sep = a # js_split rest sep"
    using Cons.IH Cons.prems(1) ni by simp
  ultimately show ?case using Cons.prems(1) by simp
qed

lemma js_startsWith_delimiter:
  "js_startsWith s ''**'' \<longleftrightarrow> (\<exists>t. s = CHR ''*'' # CHR ''*'' # t)"
  by (simp add: js_startsWith_iff)

lemma js_endsWith_asterisk:
  "js_endsWith a ''*'' \<longleftrightarrow> a \<noteq> [] \<and> last a = CHR ''*''"
proof (cases a rule: rev_cases)
  case Nil
  then show ?thesis by (simp add: js_endsWith_def js_startsWith_def)
next
  case (snoc b x)
  then show ?thesis by (simp add: js_endsWith_def js_startsWith_def)
qed

lemma no_delimiter_before:
  "\<not> js_includes a ''**'' \<Longrightarrow> \<not> js_endsWith a ''*'' \<Longrightarrow> \<not> js_includes (a @ ''*'') ''**''"
proof (induction a)
  case Nil
  then show ?case by (simp add: js_startsWith_delimiter)
next
  case (Cons x a)
  show ?case
  proof (cases a)
    case Nil
    with Cons.prems show ?thesis
      by (simp add: js_startsWith_delimiter js_endsWith_asterisk)
  next
    case (Cons y b)
    from Cons.prems have ni: "\<not> js_includes a ''**''"
      and ns: "\<not> js_startsWith (x # a) ''**''" by simp_all
    from Cons.prems(2) Cons have "\<not> js_endsWith a ''*''"
      by (simp add: js_endsWith_asterisk)
    with Cons.IH ni have "\<not> js_includes (a @ ''*'') ''**''" by simp
    moreover have "\<not> js_startsWith (x # a @ ''*'') ''**''"
      using ns Cons by (simp add: js_startsWith_delimiter)
    ultimately show ?thesis by simp
  qed
qed

lemma js_split_two_delimiters:
  assumes "\<not> js_includes a ''**''" and "\<not> js_endsWith a ''*''"
    and "\<not> js_includes b ''**''" and "\<not> js_endsWith b ''*''"
    and "\<not> js_includes c ''**''"
  shows "js_split (a @ ''**'' @ b @ ''**'' @ c) ''**'' = [a, b, c]"
proof -
  have bl: "butlast ''**'' = ''*''" by simp
  have "js_split (a @ ''**'' @ b @ ''**'' @ c) ''**'' = a # js_split (b @ ''**'' @ c) ''**''"
    using js_split_first [of "''**''" a "b @ ''**'' @ c"] no_delimiter_before [OF assms(1,2)] bl
    by simp
  also have "js_split (b @ ''**'' @ c) ''**'' = b # js_split c ''**''"
    using js_split_first [of "''**''" b c] no_delimiter_before [OF assms(3,4)] bl
    by simp
  also have "js_split c ''**'' = [c]"
    using js_split_no_sep [of "''**''" c] assms(5) by simp
  finally show ?thesis .
qed

lemma boldRuns_length: "length (boldRuns parts) = length parts"
  by (simp add: boldRuns_def)

lemma boldRuns_nth:
  "i < length parts \<Longrightarrow>
   boldRuns parts ! i = (if i mod 2 = 1 then Strong (parts ! i) else Plain (parts ! i))"
  by (simp add: boldRuns_def nth_enumerate_eq)

text \<open>Lines that the tests before the bold branch catch keep their delimiters.\<close>

lemma js_replace_prefix:
  "p \<noteq> [] \<Longrightarrow> js_startsWith s p \<Longrightarrow> js_replace s p '''' = drop (length p) s"
  by (cases s) (auto simp: js_startsWith_def)

lemma js_split_skip:
  "\<not> js_startsWith (c # cs) ''**'' \<Longrightarrow>
   length (js_split (c # cs) ''**'') = length (js_split cs ''**'')"
  by (simp split: list.splits add: js_split_not_Nil)

lemma js_includes_skip:
  "\<not> js_startsWith (c # cs) ''**'' \<Longrightarrow> js_includes (c # cs) ''**'' = js_includes cs ''**''"
  by simp

lemma isWhiteSpace_not_asterisk: "isWhiteSpace c \<Longrightarrow> c \<noteq> CHR ''*''"
  by (auto simp: isWhiteSpace_def)

lemma dropWhile_white_delimiters:
  "length (js_split (dropWhile isWhiteSpace s) ''**'') = length (js_split s ''**'')
   \<and> js_includes (dropWhile isWhiteSpace s) ''**'' = js_includes s ''**''"
proof (induction s)
  case Nil
  then show ?case by simp
next
  case (Cons x s)
  show ?case
  proof (cases "isWhiteSpace x")
    case True
    then have "\<not> js_startsWith (x # s) ''**''"
      using isWhiteSpace_not_asterisk by (auto simp: js_startsWith_delimiter)
    then show ?thesis
      using Cons.IH True js_split_skip [of x s] js_includes_skip [of x s] by simp
  next
    case False
    then show ?thesis by simp
  qed
qed

lemma heading_delimiters:
  assumes "c \<noteq> CHR ''*''" and "d \<noteq> CHR ''*''"
  shows "length (js_split (c # d # t) ''**'') = length (js_split t ''**'')
    \<and> js_includes (c # d # t) ''**'' = js_includes t ''**''"
proof -
  have a: "\<not> js_startsWith (c # d # t) ''**''" and b: "\<not> js_startsWith (d # t) ''**''"
    using assms by (auto simp: js_startsWith_delimiter)
  show ?thesis
    using js_split_skip [OF a] js_split_skip [OF b] js_includes_skip [OF a]
      js_includes_skip [OF b] by simp
qed

lemma heading3_delimiters:
  assumes "js_startsWith l ''## ''"
  shows "length (js_split (drop 3 l) ''**'') = length (js_split l ''**'')
    \<and> js_includes (drop 3 l) ''**'' = js_includes l ''**''"
proof -
  from assms obtain t where l: "l = CHR ''#'' # CHR ''#'' # CHR '' '' # t"
    by (auto simp: js_startsWith_iff)
  have "\<not> js_startsWith (CHR '' '' # t) ''**''" by (simp add: js_startsWith_delimiter)
  then show ?thesis
    using heading_delimiters [of "CHR ''#''" "CHR ''#''" "CHR '' '' # t"]
      js_split_skip [of "CHR '' ''" t] js_includes_skip [of "CHR '' ''" t]
    unfolding l by simp
qed

lemma heading2_delimiters:
  assumes "js_startsWith l ''# ''"
  shows "length (js_split (drop 2 l) ''**'') = length (js_split l ''**'')
    \<and> js_includes (drop 2 l) ''**'' = js_includes l ''**''"
proof -
  from assms obtain t where l: "l = CHR ''#'' # CHR '' '' # t"
    by (auto simp: js_startsWith_iff)
  show ?thesis
    using heading_delimiters [of "CHR ''#''" "CHR '' ''" t] unfolding l by simp
qed

lemma replaceBulletMarker_delimiters:
  "length (js_split (replaceBulletMarker l) ''**'') = length (js_split l ''**'')
   \<and> js_includes (replaceBulletMarker l) ''**'' = js_includes l ''**''"
proof (cases l)
  case Nil
  then show ?thesis by (simp add: replaceBulletMarker_def)
next
  case (Cons c rest)
  show ?thesis
  proof (cases "(c = CHR ''*'' \<or> c = CHR ''-'') \<and> rest \<noteq> [] \<and> isWhiteSpace (hd rest)")
    case False
    then show ?thesis using Cons by (auto simp: replaceBulletMarker_def)
  next
    case True
    then obtain x xs where rest: "rest = x # xs" and x: "isWhiteSpace x"
      by (cases rest) auto
    have "\<not> js_startsWith (c # rest) ''**''"
      using isWhiteSpace_not_asterisk [OF x] rest by (simp add: js_startsWith_delimiter)
    then have "length (js_split (c # rest) ''**'') = length (js_split rest ''**'')"
      and "js_includes (c # rest) ''**'' = js_includes rest ''**''"
      using js_split_skip [of c rest] js_includes_skip [of c rest] by simp_all
    moreover have "replaceBulletMarker l = dropWhile isWhiteSpace rest"
      using True Cons by (simp add: replaceBulletMarker_def)
    ultimately show ?thesis
      using dropWhile_white_delimiters [of rest] Cons by simp
  qed
qed

lemma renderLine_heading3:
  "js_startsWith l ''## '' \<Longrightarrow> renderLine l = H3 (drop 3 l)"
  using js_replace_prefix [of "''## ''" l] by (simp add: renderLine_def numeral_3_eq_3)

lemma renderLine_heading2:
  "\<not> js_startsWith l ''## '' \<Longrightarrow> js_startsWith l ''# '' \<Longrightarrow> renderLine l = H2 (drop 2 l)"
  using js_replace_prefix [of "''# ''" l] by (simp add: renderLine_def numeral_2_eq_2)

lemma renderLine_bullet:
  "\<not> js_startsWith l ''## '' \<Longrightarrow> \<not> js_startsWith l ''# '' \<Longrightarrow>
   js_startsWith (js_trim l) ''* '' \<or> js_startsWith (js_trim l) ''- '' \<Longrightarrow>
   renderLine l = Li (replaceBulletMarker l)"
  by (simp add: renderLine_def)

section \<open>Facts about the analysis client\<close>

lemma composeParts_eq:
  "composeParts r =
     (case req_imageBase64 r of
        None \<Rightarrow> []
      | Some b \<Rightarrow>
          (case req_imageMimeType r of
             None \<Rightarrow> []
           | Some m \<Rightarrow> if b \<noteq> '''' \<and> m \<noteq> '''' then [InlineData m (base64Data b)] else []))
     @ [TextPart (userEcho (req_text r) @ taskInstruction (req_mode r))]"
  by (cases "req_mode r")
    (simp_all add: composeParts_def userEcho_def truthy_def split: option.splits)

lemma getClient_cases:
  "getClient e = (if truthy_opt (API_KEY e) then Inr (the (API_KEY e))
     else Inl (JsError (Some ''API Key not found in environment variables'')))"
  by (simp add: getClient_def truthy_opt_def split: option.splits)

lemma errorMessage_not_empty: "errorMessage ex \<noteq> ''''"
  by (cases ex) (simp add: errorMessage_def truthy_def split: option.splits)

lemma analyzeContent_no_key:
  assumes "\<not> truthy_opt (API_KEY e)"
  shows "analyzeContent e r w =
     (\<lparr>res_markdown = '''', res_error = Some ''API Key not found in environment variables''\<rparr>,
      w\<lparr>calls := calls w @ [r],
        console := console w @ [(''Gemini API Error:'',
          JsError (Some ''API Key not found in environment variables''))]\<rparr>)"
  using assms
  by (simp add: analyzeContent_def analyzeContent_try_def getClient_cases errorMessage_def
      truthy_def)

lemma analyzeContent_rejected:
  assumes "API_KEY e = Some k" and "truthy k"
    and "generateContent e k (composeParts r) = Rejects ex"
  shows "analyzeContent e r w =
     (\<lparr>res_markdown = '''', res_error = Some (errorMessage ex)\<rparr>,
      w\<lparr>calls := calls w @ [r], dispatched := dispatched w @ [composeParts r],
        console := console w @ [(''Gemini API Error:'', ex)]\<rparr>)"
  using assms
  by (simp add: analyzeContent_def analyzeContent_try_def getClient_def)

lemma analyzeContent_empty_text:
  assumes "API_KEY e = Some k" and "truthy k"
    and "generateContent e k (composeParts r) = Resolves t" and "\<not> truthy_opt t"
  shows "analyzeContent e r w =
     (\<lparr>res_markdown = '''', res_error = Some ''No response generated from the model.''\<rparr>,
      w\<lparr>calls := calls w @ [r], dispatched := dispatched w @ [composeParts r],
        console := console w @ [(''Gemini API Error:'',
          JsError (Some ''No response generated from the model.''))]\<rparr>)"
  using assms
  by (cases t)
    (simp_all add: analyzeContent_def analyzeContent_try_def getClient_def errorMessage_def
      truthy_opt_def truthy_def)

lemma analyzeContent_text:
  assumes "API_KEY e = Some k" and "truthy k"
    and "generateContent e k (composeParts r) = Resolves (Some t)" and "truthy t"
  shows "analyzeContent e r w =
     (\<lparr>res_markdown = t, res_error = None\<rparr>,
      w\<lparr>calls := calls w @ [r], dispatched := dispatched w @ [composeParts r]\<rparr>)"
  using assms
  by (simp add: analyzeContent_def analyzeContent_try_def getClient_def)

text \<open>The four cases above are all the cases there are.\<close>

lemma analyzeContent_outcomes:
  obtains (no_key) "\<not> truthy_opt (API_KEY e)"
  | (rejected) k ex where "API_KEY e = Some k" "truthy k"
      "generateContent e k (composeParts r) = Rejects ex"
  | (empty_text) k t where "API_KEY e = Some k" "truthy k"
      "generateContent e k (composeParts r) = Resolves t" "\<not> truthy_opt t"
  | (answered) k t where "API_KEY e = Some k" "truthy k"
      "generateContent e k (composeParts r) = Resolves (Some t)" "truthy t"
proof (cases "truthy_opt (API_KEY e)")
  case False
  then show ?thesis by (rule no_key)
next
  case True
  then obtain k where k: "API_KEY e = Some k" "truthy k"
    by (auto simp: truthy_opt_def split: option.splits)
  show ?thesis
  proof (cases "generateContent e k (composeParts r)")
    case (Rejects ex)
    with k show ?thesis by (rule rejected)
  next
    case (Resolves t)
    show ?thesis
    proof (cases "truthy_opt t")
      case False
      with k Resolves show ?thesis by (rule empty_text)
    next
      case True
      then obtain u where "t = Some u" "truthy u"
        by (auto simp: truthy_opt_def split: option.splits)
      with k Resolves show ?thesis by (auto intro: answered)
    qed
  qed
qed

lemma analyzeContent_calls: "calls (snd (analyzeContent e r w)) = calls w @ [r]"
  by (cases rule: analyzeContent_outcomes [where e = e and r = r])
    (simp_all add: analyzeContent_no_key analyzeContent_rejected analyzeContent_empty_text
      analyzeContent_text)

lemma analyzeContent_localStorage:
  "localStorage (snd (analyzeContent e r w)) = localStorage w"
  by (cases rule: analyzeContent_outcomes [where e = e and r = r])
    (simp_all add: analyzeContent_no_key analyzeContent_rejected analyzeContent_empty_text
      analyzeContent_text)

lemma analyzeContent_response_cases:
  "(\<exists>t. t \<noteq> '''' \<and> fst (analyzeContent e r w) = \<lparr>res_markdown = t, res_error = None\<rparr>)
   \<or> (\<exists>m. m \<noteq> '''' \<and> fst (analyzeContent e r w) = \<lparr>res_markdown = '''', res_error = Some m\<rparr>)"
proof (cases rule: analyzeContent_outcomes [where e = e and r = r])
  case no_key
  then show ?thesis by (simp add: analyzeContent_no_key)
next
  case (rejected k ex)
  then show ?thesis by (simp add: analyzeContent_rejected errorMessage_not_empty)
next
  case (empty_text k t)
  then show ?thesis by (simp add: analyzeContent_empty_text)
next
  case (answered k t)
  then show ?thesis by (simp add: analyzeContent_text truthy_def)
qed

section \<open>Facts about the session controller\<close>

lemma newItem_cong:
  "selectedMode s' = selectedMode s \<Longrightarrow> selectedImage s' = selectedImage s \<Longrightarrow>
   newItem e text response s' = newItem e text response s"
  by (simp add: newItem_def)

lemma addToHistory_history:
  "history (fst (addToHistory e text response s w)) = newItem e text response s # history s"
  by (simp add: addToHistory_def Let_def split: sum.splits)

lemma addToHistory_state:
  "fst (addToHistory e text response s w) =
     s\<lparr>history := newItem e text response s # history s\<rparr>"
  by (simp add: addToHistory_def Let_def split: sum.splits)

lemma addToHistory_calls: "calls (snd (addToHistory e text response s w)) = calls w"
  by (simp add: addToHistory_def Let_def split: sum.splits)

lemma handleSubmit_accepted:
  assumes "truthy (inputText s) \<or> truthy_opt (selectedImage s)"
  shows "handleSubmit e s w =
     (if truthy_opt (res_error (fst (analyzeContent e (requestOf s) w)))
      then (s\<lparr>isAnalyzing := False, error := res_error (fst (analyzeContent e (requestOf s) w)),
              responseContent := ''''\<rparr>,
            snd (analyzeContent e (requestOf s) w))
      else addToHistory e (inputText s) (res_markdown (fst (analyzeContent e (requestOf s) w)))
             (s\<lparr>isAnalyzing := False, error := None,
                responseContent := res_markdown (fst (analyzeContent e (requestOf s) w))\<rparr>)
             (snd (analyzeContent e (requestOf s) w)))"
  using assms by (cases s) (auto simp: handleSubmit_def Let_def split: prod.splits)

text \<open>An accepted submission calls \<open>analyzeContent\<close> once, with the request of the state.\<close>

lemma handleSubmit_calls:
  assumes "truthy (inputText s) \<or> truthy_opt (selectedImage s)"
  shows "calls (snd (handleSubmit e s w)) = calls w @ [requestOf s]"
  by (simp add: handleSubmit_accepted [OF assms] addToHistory_calls analyzeContent_calls)

text \<open>A failed analysis creates no history entry.\<close>

lemma handleSubmit_failure_history:
  assumes "truthy (inputText s) \<or> truthy_opt (selectedImage s)"
    and "truthy_opt (res_error (fst (analyzeContent e (requestOf s) w)))"
  shows "history (fst (handleSubmit e s w)) = history s"
  by (simp add: handleSubmit_accepted [OF assms(1)] assms(2))

lemma handleSubmit_success_state:
  assumes "truthy (inputText s) \<or> truthy_opt (selectedImage s)"
    and "\<not> truthy_opt (res_error (fst (analyzeContent e (requestOf s) w)))"
  shows "fst (handleSubmit e s w) =
     s\<lparr>isAnalyzing := False, error := None,
       responseContent := res_markdown (fst (analyzeContent e (requestOf s) w)),
       history := newItem e (inputText s)
         (res_markdown (fst (analyzeContent e (requestOf s) w))) s # history s\<rparr>"
proof -
  have "fst (handleSubmit e s w) =
      fst (addToHistory e (inputText s) (res_markdown (fst (analyzeContent e (requestOf s) w)))
             (s\<lparr>isAnalyzing := False, error := None,
                responseContent := res_markdown (fst (analyzeContent e (requestOf s) w))\<rparr>)
             (snd (analyzeContent e (requestOf s) w)))"
    by (simp add: handleSubmit_accepted [OF assms(1)] assms(2))
  also have "\<dots> =
     s\<lparr>isAnalyzing := False, error := None,
       responseContent := res_markdown (fst (analyzeContent e (requestOf s) w)),
       history := newItem e (inputText s)
         (res_markdown (fst (analyzeContent e (requestOf s) w))) s # history s\<rparr>"
    unfolding addToHistory_state by (cases s) (simp add: newItem_def)
  finally show ?thesis .
qed

text \<open>A response without error comes from a model that answered with non-empty text.\<close>

lemma analyzeContent_success:
  assumes "\<not> truthy_opt (res_error (fst (analyzeContent e r w)))"
  shows "analyzeContent e r w =
     (\<lparr>res_markdown = res_markdown (fst (analyzeContent e r w)), res_error = None\<rparr>,
      w\<lparr>calls := calls w @ [r], dispatched := dispatched w @ [composeParts r]\<rparr>)"
proof (cases rule: analyzeContent_outcomes [where e = e and r = r])
  case no_key
  with assms show ?thesis
    by (simp add: analyzeContent_no_key truthy_opt_def truthy_def)
next
  case (rejected k ex)
  with assms show ?thesis
    by (simp add: analyzeContent_rejected truthy_opt_def truthy_def errorMessage_not_empty)
next
  case (empty_text k t)
  with assms show ?thesis
    by (simp add: analyzeContent_empty_text truthy_opt_def truthy_def)
next
  case (answered k t)
  then show ?thesis by (simp add: analyzeContent_text)
qed

lemma addToHistory_write_fails:
  assumes "setItem e ''accessibility_app_history''
      (stringify e (newItem e text response s # history s)) (localStorage w) = Inl ex"
  shows "addToHistory e text response s w =
     (s\<lparr>history := newItem e text response s # history s\<rparr>,
      w\<lparr>console := console w @ [(''Failed to save history - likely quota exceeded'', ex)]\<rparr>)"
  using assms by (simp add: addToHistory_def Let_def)

lemma addToHistory_write_succeeds:
  assumes "setItem e ''accessibility_app_history''
      (stringify e (newItem e text response s # history s)) (localStorage w) = Inr stored"
  shows "addToHistory e text response s w =
     (s\<lparr>history := newItem e text response s # history s\<rparr>, w\<lparr>localStorage := stored\<rparr>)"
  using assms by (simp add: addToHistory_def Let_def)

section \<open>Properties of the renderer\<close>

text \<open>
  C7. Rendering the string \<open>## Title\n\n* Point one\n* Point two\<close> yields exactly four
  elements in this order: the sub-heading "Title", one blank spacer, the bullet item
  "Point one" and the bullet item "Point two".
\<close>

theorem renderContent_example:
  "renderContent ''## Title\<newline>\<newline>* Point one\<newline>* Point two'' =
     [H3 ''Title'', Div, Li ''Point one'', Li ''Point two'']"
  by (simp add: renderContent_def renderLine_def js_startsWith_def js_trim_def
      isWhiteSpace_def replaceBulletMarker_def)

text \<open>
  C8, as the code has it. A line that contains the delimiter \<open>**\<close> reaches the bold
  branch only when the tests before it fail: the line starts with neither \<open>## \<close> nor
  \<open># \<close>, and its trimmed form starts with neither \<open>* \<close> nor \<open>- \<close>. For such a line
  the renderer returns a paragraph whose runs are the segments of the line split at
  every occurrence of \<open>**\<close> (joined with the delimiter they give the line back, and no
  segment contains the delimiter), the runs at odd positions strong and those at even
  positions plain. In particular a line \<open>a**b**c\<close> in which the two delimiters are the
  only ones (no delimiter in \<open>a\<close>, \<open>b\<close> or \<open>c\<close>, and \<open>a\<close> and \<open>b\<close> do not end with an
  asterisk) gives the three runs plain \<open>a\<close>, strong \<open>b\<close>, plain \<open>c\<close>.
  Every heading line and every bullet line keeps its delimiters as literal text: a line
  that starts with \<open>## \<close> is the sub-heading of the line without these three
  characters, a line that starts with \<open># \<close> is the heading of the line without these
  two, a bullet line is the list item of the line with its leading marker replaced, and
  in each case the one string of the element contains the delimiter whenever the line
  does and splits at \<open>**\<close> into as many segments as the line.
\<close>

theorem renderLine_bold_paragraph:
  assumes "\<not> js_startsWith line ''## ''" and "\<not> js_startsWith line ''# ''"
    and "\<not> js_startsWith (js_trim line) ''* ''"
    and "\<not> js_startsWith (js_trim line) ''- ''"
    and "js_includes line ''**''"
  shows "renderLine line = P (boldRuns (js_split line ''**''))
    \<and> js_join (js_split line ''**'') ''**'' = line
    \<and> (\<forall>p \<in> set (js_split line ''**''). \<not> js_includes p ''**'')
    \<and> length (boldRuns (js_split line ''**'')) = length (js_split line ''**'')
    \<and> (\<forall>i < length (js_split line ''**'').
          boldRuns (js_split line ''**'') ! i =
            (if i mod 2 = 1 then Strong (js_split line ''**'' ! i)
             else Plain (js_split line ''**'' ! i)))
    \<and> (\<forall>a b c. line = a @ ''**'' @ b @ ''**'' @ c
          \<and> \<not> js_includes a ''**'' \<and> \<not> js_endsWith a ''*''
          \<and> \<not> js_includes b ''**'' \<and> \<not> js_endsWith b ''*''
          \<and> \<not> js_includes c ''**''
          \<longrightarrow> renderLine line = P [Plain a, Strong b, Plain c])
    \<and> (\<forall>l. js_startsWith l ''## '' \<longrightarrow>
          renderLine l = H3 (drop 3 l)
          \<and> js_includes (drop 3 l) ''**'' = js_includes l ''**''
          \<and> length (js_split (drop 3 l) ''**'') = length (js_split l ''**''))
    \<and> (\<forall>l. \<not> js_startsWith l ''## '' \<and> js_startsWith l ''# '' \<longrightarrow>
          renderLine l = H2 (drop 2 l)
          \<and> js_includes (drop 2 l) ''**'' = js_includes l ''**''
          \<and> length (js_split (drop 2 l) ''**'') = length (js_split l ''**''))
    \<and> (\<forall>l. \<not> js_startsWith l ''## '' \<and> \<not> js_startsWith l ''# ''
          \<and> (js_startsWith (js_trim l) ''* '' \<or> js_startsWith (js_trim l) ''- '') \<longrightarrow>
          renderLine l = Li (replaceBulletMarker l)
          \<and> js_includes (replaceBulletMarker l) ''**'' = js_includes l ''**''
          \<and> length (js_split (replaceBulletMarker l) ''**'') = length (js_split l ''**''))"
proof -
  have r: "renderLine line = P (boldRuns (js_split line ''**''))"
    using assms by (simp add: renderLine_def)
  have j: "js_join (js_split line ''**'') ''**'' = line"
    by (rule js_join_split) simp
  have f: "\<forall>p \<in> set (js_split line ''**''). \<not> js_includes p ''**''"
    using js_split_parts_free [of "''**''" _ line] by blast
  have n: "\<forall>i < length (js_split line ''**'').
          boldRuns (js_split line ''**'') ! i =
            (if i mod 2 = 1 then Strong (js_split line ''**'' ! i)
             else Plain (js_split line ''**'' ! i))"
    using boldRuns_nth by blast
  have t: "\<forall>a b c. line = a @ ''**'' @ b @ ''**'' @ c
          \<and> \<not> js_includes a ''**'' \<and> \<not> js_endsWith a ''*''
          \<and> \<not> js_includes b ''**'' \<and> \<not> js_endsWith b ''*''
          \<and> \<not> js_includes c ''**''
          \<longrightarrow> renderLine line = P [Plain a, Strong b, Plain c]"
  proof (intro allI impI)
    fix a b c
    assume h: "line = a @ ''**'' @ b @ ''**'' @ c
          \<and> \<not> js_includes a ''**'' \<and> \<not> js_endsWith a ''*''
          \<and> \<not> js_includes b ''**'' \<and> \<not> js_endsWith b ''*''
          \<and> \<not> js_includes c ''**''"
    then have "js_split line ''**'' = [a, b, c]"
      using js_split_two_delimiters [of a b c] by simp
    then show "renderLine line = P [Plain a, Strong b, Plain c]"
      using r by (simp add: boldRuns_def)
  qed
  have h3: "\<forall>l. js_startsWith l ''## '' \<longrightarrow>
          renderLine l = H3 (drop 3 l)
          \<and> js_includes (drop 3 l) ''**'' = js_includes l ''**''
          \<and> length (js_split (drop 3 l) ''**'') = length (js_split l ''**'')"
    using renderLine_heading3 heading3_delimiters by blast
  have h2: "\<forall>l. \<not> js_startsWith l ''## '' \<and> js_startsWith l ''# '' \<longrightarrow>
          renderLine l = H2 (drop 2 l)
          \<and> js_includes (drop 2 l) ''**'' = js_includes l ''**''
          \<and> length (js_split (drop 2 l) ''**'') = length (js_split l ''**'')"
    using renderLine_heading2 heading2_delimiters by blast
  have li: "\<forall>l. \<not> js_startsWith l ''## '' \<and> \<not> js_startsWith l ''# ''
          \<and> (js_startsWith (js_trim l) ''* '' \<or> js_startsWith (js_trim l) ''- '') \<longrightarrow>
          renderLine l = Li (replaceBulletMarker l)
          \<and> js_includes (replaceBulletMarker l) ''**'' = js_includes l ''**''
          \<and> length (js_split (replaceBulletMarker l) ''**'') = length (js_split l ''**'')"
    using renderLine_bullet replaceBulletMarker_delimiters by blast
  show ?thesis by (intro conjI) (rule r j f boldRuns_length n t h3 h2 li)+
qed

theorem renderLine_bold_paragraph_witness:
  "\<not> js_startsWith ''Press **Enter** now'' ''## ''
   \<and> \<not> js_startsWith ''Press **Enter** now'' ''# ''
   \<and> \<not> js_startsWith (js_trim ''Press **Enter** now'') ''* ''
   \<and> \<not> js_startsWith (js_trim ''Press **Enter** now'') ''- ''
   \<and> js_includes ''Press **Enter** now'' ''**''
   \<and> \<not> js_includes ''Press '' ''**'' \<and> \<not> js_endsWith ''Press '' ''*''
   \<and> \<not> js_includes ''Enter'' ''**'' \<and> \<not> js_endsWith ''Enter'' ''*''
   \<and> \<not> js_includes '' now'' ''**''
   \<and> renderLine ''Press **Enter** now'' = P [Plain ''Press '', Strong ''Enter'', Plain '' now'']
   \<and> js_startsWith ''## Use **Tab**'' ''## ''
   \<and> renderLine ''## Use **Tab**'' = H3 ''Use **Tab**''
   \<and> \<not> js_startsWith ''# **Top**'' ''## '' \<and> js_startsWith ''# **Top**'' ''# ''
   \<and> renderLine ''# **Top**'' = H2 ''**Top**''
   \<and> \<not> js_startsWith ''  - **Save** the form'' ''## ''
   \<and> \<not> js_startsWith ''  - **Save** the form'' ''# ''
   \<and> js_startsWith (js_trim ''  - **Save** the form'') ''- ''
   \<and> renderLine ''  - **Save** the form'' = Li ''  - **Save** the form''
   \<and> \<not> js_startsWith ''* **Note** text'' ''## ''
   \<and> \<not> js_startsWith ''* **Note** text'' ''# ''
   \<and> js_startsWith (js_trim ''* **Note** text'') ''* ''
   \<and> renderLine ''* **Note** text'' = Li ''**Note** text''"
proof -
  have h1: "\<not> js_startsWith ''Press **Enter** now'' ''## ''"
    and h2: "\<not> js_startsWith ''Press **Enter** now'' ''# ''"
    and h3: "\<not> js_startsWith (js_trim ''Press **Enter** now'') ''* ''"
    and h4: "\<not> js_startsWith (js_trim ''Press **Enter** now'') ''- ''"
    and h5: "js_includes ''Press **Enter** now'' ''**''"
    by (simp_all add: js_startsWith_def js_trim_def isWhiteSpace_def)
  have parts: "\<not> js_includes ''Press '' ''**'' \<and> \<not> js_endsWith ''Press '' ''*''
   \<and> \<not> js_includes ''Enter'' ''**'' \<and> \<not> js_endsWith ''Enter'' ''*''
   \<and> \<not> js_includes '' now'' ''**''"
    by (simp add: js_startsWith_def js_endsWith_def)
  have eq: "''Press **Enter** now'' = ''Press '' @ ''**'' @ ''Enter'' @ ''**'' @ '' now''"
    by simp
  note all = renderLine_bold_paragraph [OF h1 h2 h3 h4 h5]
  note rest = all [THEN conjunct2, THEN conjunct2, THEN conjunct2, THEN conjunct2,
      THEN conjunct2]
  note three = rest [THEN conjunct1, rule_format, of "''Press ''" "''Enter''" "'' now''"]
  have c: "renderLine ''Press **Enter** now'' = P [Plain ''Press '', Strong ''Enter'', Plain '' now'']"
    by (rule three) (rule conjI [OF eq parts])
  have a1: "js_startsWith ''## Use **Tab**'' ''## ''" by (simp add: js_startsWith_def)
  have c1: "renderLine ''## Use **Tab**'' = H3 ''Use **Tab**''"
    using rest [THEN conjunct2, THEN conjunct1, rule_format, OF a1, THEN conjunct1] by simp
  have a2: "\<not> js_startsWith ''# **Top**'' ''## ''" and a3: "js_startsWith ''# **Top**'' ''# ''"
    by (simp_all add: js_startsWith_def)
  have c2: "renderLine ''# **Top**'' = H2 ''**Top**''"
    using rest [THEN conjunct2, THEN conjunct2, THEN conjunct1, rule_format,
        OF conjI [OF a2 a3], THEN conjunct1] by simp
  have b1: "\<not> js_startsWith ''  - **Save** the form'' ''## ''"
    and b2: "\<not> js_startsWith ''  - **Save** the form'' ''# ''"
    and b3: "js_startsWith (js_trim ''  - **Save** the form'') ''- ''"
    by (simp_all add: js_startsWith_def js_trim_def isWhiteSpace_def)
  have c3: "renderLine ''  - **Save** the form'' = Li ''  - **Save** the form''"
    using rest [THEN conjunct2, THEN conjunct2, THEN conjunct2, rule_format,
        OF conjI [OF b1 conjI [OF b2 disjI2 [OF b3]]], THEN conjunct1]
    by (simp add: replaceBulletMarker_def)
  have d1: "\<not> js_startsWith ''* **Note** text'' ''## ''"
    and d2: "\<not> js_startsWith ''* **Note** text'' ''# ''"
    and d3: "js_startsWith (js_trim ''* **Note** text'') ''* ''"
    by (simp_all add: js_startsWith_def js_trim_def isWhiteSpace_def)
  have c4: "renderLine ''* **Note** text'' = Li ''**Note** text''"
    using rest [THEN conjunct2, THEN conjunct2, THEN conjunct2, rule_format,
        OF conjI [OF d1 conjI [OF d2 disjI1 [OF d3]]], THEN conjunct1]
    by (simp add: replaceBulletMarker_def isWhiteSpace_def)
  show ?thesis
    by (intro conjI h1 h2 h3 h4 h5 parts [THEN conjunct1]
      parts [THEN conjunct2, THEN conjunct1]
      parts [THEN conjunct2, THEN conjunct2, THEN conjunct1]
      parts [THEN conjunct2, THEN conjunct2, THEN conjunct2, THEN conjunct1]
      parts [THEN conjunct2, THEN conjunct2, THEN conjunct2, THEN conjunct2]
      c a1 c1 a2 a3 c2 b1 b2 b3 c3 d1 d2 d3 c4)
qed

text \<open>
  C8 as stated, for every line that contains the delimiter, fails on a heading
  line: the heading test comes first and the delimiters stay in the heading's text.
\<close>

theorem renderLine_bold_counterexample:
  "js_includes ''## **Note**'' ''**'' \<and> renderLine ''## **Note**'' = H3 ''**Note**''"
  by (simp add: renderLine_def js_startsWith_def)

section \<open>Properties of the analysis client\<close>

text \<open>
  C2. \<open>analyzeContent\<close> never throws: its result is a response on every path, and every
  failure of the \<open>try\<close> block is returned as a response with markdown \<open>""\<close> and a
  non-empty error message. A missing API credential gives the message of \<open>getClient\<close>,
  a rejected call gives the message of the thrown value (or the fallback text when that
  message is empty or missing), and a call whose returned text is empty or undefined
  gives "No response generated from the model.".
\<close>

theorem analyzeContent_captures_failures:
  "(\<not> truthy_opt (API_KEY e) \<longrightarrow>
      fst (analyzeContent e r w) =
        \<lparr>res_markdown = '''',
         res_error = Some ''API Key not found in environment variables''\<rparr>)
   \<and> (\<forall>k ex. API_KEY e = Some k \<and> truthy k
          \<and> generateContent e k (composeParts r) = Rejects ex \<longrightarrow>
        fst (analyzeContent e r w) =
          \<lparr>res_markdown = '''', res_error = Some (errorMessage ex)\<rparr>
        \<and> errorMessage ex \<noteq> '''')
   \<and> (\<forall>k t. API_KEY e = Some k \<and> truthy k
          \<and> generateContent e k (composeParts r) = Resolves t \<and> \<not> truthy_opt t \<longrightarrow>
        fst (analyzeContent e r w) =
          \<lparr>res_markdown = '''',
           res_error = Some ''No response generated from the model.''\<rparr>)
   \<and> (\<forall>ex w1. analyzeContent_try e r (w\<lparr>calls := calls w @ [r]\<rparr>) = (Inl ex, w1) \<longrightarrow>
        res_markdown (fst (analyzeContent e r w)) = ''''
        \<and> (\<exists>m. res_error (fst (analyzeContent e r w)) = Some m \<and> m \<noteq> ''''))"
proof (intro conjI allI impI)
  assume "\<not> truthy_opt (API_KEY e)"
  then show "fst (analyzeContent e r w) =
      \<lparr>res_markdown = '''', res_error = Some ''API Key not found in environment variables''\<rparr>"
    by (simp add: analyzeContent_no_key)
next
  fix k ex
  assume "API_KEY e = Some k \<and> truthy k \<and> generateContent e k (composeParts r) = Rejects ex"
  then show "fst (analyzeContent e r w) =
      \<lparr>res_markdown = '''', res_error = Some (errorMessage ex)\<rparr>"
    by (simp add: analyzeContent_rejected)
next
  fix k ex
  show "errorMessage ex \<noteq> ''''" by (rule errorMessage_not_empty)
next
  fix k t
  assume "API_KEY e = Some k \<and> truthy k
    \<and> generateContent e k (composeParts r) = Resolves t \<and> \<not> truthy_opt t"
  then show "fst (analyzeContent e r w) =
      \<lparr>res_markdown = '''', res_error = Some ''No response generated from the model.''\<rparr>"
    by (simp add: analyzeContent_empty_text)
next
  fix ex w1
  assume a: "analyzeContent_try e r (w\<lparr>calls := calls w @ [r]\<rparr>) = (Inl ex, w1)"
  then show "res_markdown (fst (analyzeContent e r w)) = ''''"
    by (simp add: analyzeContent_def)
  from a show "\<exists>m. res_error (fst (analyzeContent e r w)) = Some m \<and> m \<noteq> ''''"
    by (simp add: analyzeContent_def errorMessage_not_empty)
qed

theorem analyzeContent_captures_failures_witness:
  "\<not> truthy_opt (API_KEY (fixedEnv None (Resolves (Some ''## Result'')) True))
   \<and> fst (analyzeContent (fixedEnv None (Resolves (Some ''## Result'')) True)
        helloRequest emptyWorld)
     = \<lparr>res_markdown = '''',
        res_error = Some ''API Key not found in environment variables''\<rparr>
   \<and> API_KEY (fixedEnv (Some ''key'') (Rejects (JsError (Some ''fetch failed''))) True)
     = Some ''key''
   \<and> truthy ''key''
   \<and> generateContent (fixedEnv (Some ''key'') (Rejects (JsError (Some ''fetch failed''))) True)
        ''key'' (composeParts helloRequest)
     = Rejects (JsError (Some ''fetch failed''))
   \<and> fst (analyzeContent (fixedEnv (Some ''key'') (Rejects (JsError (Some ''fetch failed''))) True)
        helloRequest emptyWorld)
     = \<lparr>res_markdown = '''', res_error = Some ''fetch failed''\<rparr>
   \<and> API_KEY (fixedEnv (Some ''key'') (Resolves (Some '''')) True) = Some ''key''
   \<and> generateContent (fixedEnv (Some ''key'') (Resolves (Some '''')) True) ''key''
        (composeParts helloRequest)
     = Resolves (Some '''')
   \<and> \<not> truthy_opt (Some '''')
   \<and> fst (analyzeContent (fixedEnv (Some ''key'') (Resolves (Some '''')) True)
        helloRequest emptyWorld)
     = \<lparr>res_markdown = '''', res_error = Some ''No response generated from the model.''\<rparr>
   \<and> analyzeContent_try (fixedEnv (Some ''key'') (Resolves None) True) helloRequest
        (emptyWorld\<lparr>calls := calls emptyWorld @ [helloRequest]\<rparr>)
     = (Inl (JsError (Some ''No response generated from the model.'')),
        emptyWorld\<lparr>calls := [helloRequest], dispatched := [composeParts helloRequest]\<rparr>)
   \<and> res_markdown (fst (analyzeContent (fixedEnv (Some ''key'') (Resolves None) True)
        helloRequest emptyWorld)) = ''''"
proof -
  let ?none = "fixedEnv None (Resolves (Some ''## Result'')) True"
  let ?rej = "fixedEnv (Some ''key'') (Rejects (JsError (Some ''fetch failed''))) True"
  let ?emp = "fixedEnv (Some ''key'') (Resolves (Some '''')) True"
  let ?und = "fixedEnv (Some ''key'') (Resolves None) True"
  have h1: "\<not> truthy_opt (API_KEY ?none)"
    by (simp add: fixedEnv_def truthy_opt_def)
  have c1: "fst (analyzeContent ?none helloRequest emptyWorld)
     = \<lparr>res_markdown = '''',
        res_error = Some ''API Key not found in environment variables''\<rparr>"
    by (rule analyzeContent_captures_failures [THEN conjunct1, rule_format, OF h1])
  have k: "truthy ''key''" by (simp add: truthy_def)
  have h2a: "API_KEY ?rej = Some ''key''" by (simp add: fixedEnv_def)
  have h2b: "generateContent ?rej ''key'' (composeParts helloRequest)
     = Rejects (JsError (Some ''fetch failed''))"
    by (simp add: fixedEnv_def)
  have c2: "fst (analyzeContent ?rej helloRequest emptyWorld)
     = \<lparr>res_markdown = '''', res_error = Some ''fetch failed''\<rparr>"
    using analyzeContent_captures_failures [where e = ?rej and r = helloRequest
        and w = emptyWorld, THEN conjunct2, THEN conjunct1, rule_format,
        OF conjI [OF h2a conjI [OF k h2b]], THEN conjunct1]
    by (simp add: errorMessage_def truthy_def)
  have h3a: "API_KEY ?emp = Some ''key''" by (simp add: fixedEnv_def)
  have h3b: "generateContent ?emp ''key'' (composeParts helloRequest) = Resolves (Some '''')"
    by (simp add: fixedEnv_def)
  have h3c: "\<not> truthy_opt (Some '''')" by (simp add: truthy_opt_def truthy_def)
  have c3: "fst (analyzeContent ?emp helloRequest emptyWorld)
     = \<lparr>res_markdown = '''', res_error = Some ''No response generated from the model.''\<rparr>"
    by (rule analyzeContent_captures_failures [THEN conjunct2, THEN conjunct2,
        THEN conjunct1, rule_format, OF conjI [OF h3a conjI [OF k conjI [OF h3b h3c]]]])
  have h4: "analyzeContent_try ?und helloRequest
        (emptyWorld\<lparr>calls := calls emptyWorld @ [helloRequest]\<rparr>)
     = (Inl (JsError (Some ''No response generated from the model.'')),
        emptyWorld\<lparr>calls := [helloRequest], dispatched := [composeParts helloRequest]\<rparr>)"
    by (simp add: analyzeContent_try_def getClient_def fixedEnv_def truthy_def emptyWorld_def)
  have c4: "res_markdown (fst (analyzeContent ?und helloRequest emptyWorld)) = ''''"
    by (rule analyzeContent_captures_failures [THEN conjunct2, THEN conjunct2,
        THEN conjunct2, rule_format, OF h4, THEN conjunct1])
  show ?thesis
    by (intro conjI) (rule h1 c1 h2a k h2b c2 h3a h3b h3c c3 h4 c4)+
qed

text \<open>
  C3. The response record has both fields, and in every response \<open>analyzeContent\<close>
  returns exactly one of "markdown non-empty" and "error present" holds: a success has
  non-empty markdown and no error, a failure has empty markdown and an error, which is
  non-empty. The success is the case of a model that answered with non-empty text.
\<close>

theorem analyzeContent_response_exclusive:
  "((res_markdown (fst (analyzeContent e r w)) \<noteq> ''''
       \<and> res_error (fst (analyzeContent e r w)) = None)
     \<or> (res_markdown (fst (analyzeContent e r w)) = ''''
       \<and> (\<exists>m. res_error (fst (analyzeContent e r w)) = Some m \<and> m \<noteq> '''')))
   \<and> ((res_error (fst (analyzeContent e r w)) = None) =
        (\<exists>k t. API_KEY e = Some k \<and> truthy k
           \<and> generateContent e k (composeParts r) = Resolves (Some t) \<and> truthy t
           \<and> res_markdown (fst (analyzeContent e r w)) = t))"
proof (cases rule: analyzeContent_outcomes [where e = e and r = r])
  case no_key
  then show ?thesis
    by (auto simp: analyzeContent_no_key truthy_opt_def)
next
  case (rejected k ex)
  then show ?thesis by (simp add: analyzeContent_rejected errorMessage_not_empty)
next
  case (empty_text k t)
  then show ?thesis by (auto simp: analyzeContent_empty_text truthy_opt_def)
next
  case (answered k t)
  then show ?thesis by (simp add: analyzeContent_text truthy_def)
qed

text \<open>
  C6. For every request the composed content is an ordered list: the inline image
  segment, present exactly when both the image payload and its MIME type are non-empty,
  followed by exactly one text segment. The text segment is the quoted echo of the
  user's text (the fallback "Analyze the provided image." when the text is empty)
  followed by the one instruction string of the mode. The content is a function of the
  request, and it is what \<open>analyzeContent\<close> dispatches whenever the API key is present.
\<close>

theorem composeParts_segments:
  "composeParts r =
     (case req_imageBase64 r of
        None \<Rightarrow> []
      | Some b \<Rightarrow>
          (case req_imageMimeType r of
             None \<Rightarrow> []
           | Some m \<Rightarrow> if b \<noteq> '''' \<and> m \<noteq> '''' then [InlineData m (base64Data b)] else []))
     @ [TextPart (userEcho (req_text r) @ taskInstruction (req_mode r))]
   \<and> length (filter (\<lambda>p. case p of TextPart _ \<Rightarrow> True | _ \<Rightarrow> False) (composeParts r)) = 1
   \<and> last (composeParts r) = TextPart (userEcho (req_text r) @ taskInstruction (req_mode r))
   \<and> (truthy_opt (API_KEY e) \<longrightarrow>
        dispatched (snd (analyzeContent e r w)) = dispatched w @ [composeParts r])"
proof (intro conjI impI)
  show "composeParts r =
     (case req_imageBase64 r of
        None \<Rightarrow> []
      | Some b \<Rightarrow>
          (case req_imageMimeType r of
             None \<Rightarrow> []
           | Some m \<Rightarrow> if b \<noteq> '''' \<and> m \<noteq> '''' then [InlineData m (base64Data b)] else []))
     @ [TextPart (userEcho (req_text r) @ taskInstruction (req_mode r))]"
    by (rule composeParts_eq)
  show "length (filter (\<lambda>p. case p of TextPart _ \<Rightarrow> True | _ \<Rightarrow> False) (composeParts r)) = 1"
    by (simp add: composeParts_eq split: option.splits)
  show "last (composeParts r) = TextPart (userEcho (req_text r) @ taskInstruction (req_mode r))"
    by (simp add: composeParts_eq)
next
  assume key: "truthy_opt (API_KEY e)"
  show "dispatched (snd (analyzeContent e r w)) = dispatched w @ [composeParts r]"
  proof (cases rule: analyzeContent_outcomes [where e = e and r = r])
    case no_key
    with key show ?thesis by simp
  next
    case (rejected k ex)
    then show ?thesis by (simp add: analyzeContent_rejected)
  next
    case (empty_text k t)
    then show ?thesis by (simp add: analyzeContent_empty_text)
  next
    case (answered k t)
    then show ?thesis by (simp add: analyzeContent_text)
  qed
qed

theorem composeParts_segments_witness:
  "truthy_opt (API_KEY (fixedEnv (Some ''key'') (Resolves (Some ''## Result'')) True))
   \<and> dispatched (snd (analyzeContent
        (fixedEnv (Some ''key'') (Resolves (Some ''## Result'')) True)
        \<lparr>req_text = ''Hi'', req_imageBase64 = Some ''data:image/png;base64,QUJD'',
          req_imageMimeType = Some ''image/png'', req_mode = SIMPLIFY\<rparr> emptyWorld))
     = [[InlineData ''image/png'' ''QUJD'',
         TextPart (''User Input: '' @ [CHR 0x22] @ ''Hi'' @ [CHR 0x22, CHR 0x0A, CHR 0x0A]
           @ ''Task: Perform a 'Simplify' analysis. Extract text and rewrite it in plain, simple language with bullet points.'')]]"
proof -
  have key: "truthy_opt (API_KEY (fixedEnv (Some ''key'') (Resolves (Some ''## Result'')) True))"
    by (simp add: fixedEnv_def truthy_opt_def truthy_def)
  note seg = composeParts_segments [where e = "fixedEnv (Some ''key'') (Resolves (Some ''## Result'')) True"
      and w = emptyWorld
      and r = "\<lparr>req_text = ''Hi'', req_imageBase64 = Some ''data:image/png;base64,QUJD'',
          req_imageMimeType = Some ''image/png'', req_mode = SIMPLIFY\<rparr>"]
  note sent = seg [THEN conjunct2, THEN conjunct2, THEN conjunct2, rule_format, OF key]
  have "dispatched (snd (analyzeContent
        (fixedEnv (Some ''key'') (Resolves (Some ''## Result'')) True)
        \<lparr>req_text = ''Hi'', req_imageBase64 = Some ''data:image/png;base64,QUJD'',
          req_imageMimeType = Some ''image/png'', req_mode = SIMPLIFY\<rparr> emptyWorld))
     = [[InlineData ''image/png'' ''QUJD'',
         TextPart (''User Input: '' @ [CHR 0x22] @ ''Hi'' @ [CHR 0x22, CHR 0x0A, CHR 0x0A]
           @ ''Task: Perform a 'Simplify' analysis. Extract text and rewrite it in plain, simple language with bullet points.'')]]"
    unfolding sent seg [THEN conjunct1]
    by (simp add: emptyWorld_def userEcho_def base64Data_def js_startsWith_def truthy_def)
  with key show ?thesis by (rule conjI)
qed

text \<open>
  C10. When exactly one of the image payload and the image MIME type is present
  (non-empty), \<open>analyzeContent\<close> leaves the inline image segment out: the content is the
  text segment alone, it is dispatched whenever the API key is present, the response is
  the one the same request without image fields gets, and a model that answers with
  non-empty text yields a response without error.
\<close>

theorem analyzeContent_incomplete_image:
  assumes "truthy_opt (req_imageBase64 r) \<noteq> truthy_opt (req_imageMimeType r)"
  shows "composeParts r = [TextPart (userEcho (req_text r) @ taskInstruction (req_mode r))]
    \<and> (truthy_opt (API_KEY e) \<longrightarrow>
         dispatched (snd (analyzeContent e r w)) =
           dispatched w @ [[TextPart (userEcho (req_text r) @ taskInstruction (req_mode r))]])
    \<and> fst (analyzeContent e r w) =
        fst (analyzeContent e (r\<lparr>req_imageBase64 := None, req_imageMimeType := None\<rparr>) w)
    \<and> (\<forall>k t. API_KEY e = Some k \<and> truthy k
          \<and> generateContent e k [TextPart (userEcho (req_text r) @ taskInstruction (req_mode r))]
              = Resolves (Some t) \<and> truthy t \<longrightarrow>
        fst (analyzeContent e r w) = \<lparr>res_markdown = t, res_error = None\<rparr>)"
proof -
  have parts: "composeParts r = [TextPart (userEcho (req_text r) @ taskInstruction (req_mode r))]"
    using assms
    by (auto simp: composeParts_eq truthy_opt_def truthy_def split: option.splits)
  have same: "composeParts (r\<lparr>req_imageBase64 := None, req_imageMimeType := None\<rparr>) = composeParts r"
    by (simp add: parts) (simp add: composeParts_eq)
  have resp: "fst (analyzeContent e r w) =
        fst (analyzeContent e (r\<lparr>req_imageBase64 := None, req_imageMimeType := None\<rparr>) w)"
  proof (cases rule: analyzeContent_outcomes [where e = e and r = r])
    case no_key
    then show ?thesis by (simp add: analyzeContent_no_key)
  next
    case (rejected k ex)
    from rejected(3) have g: "generateContent e k
        (composeParts (r\<lparr>req_imageBase64 := None, req_imageMimeType := None\<rparr>)) = Rejects ex"
      by (simp only: same)
    show ?thesis
      by (simp add: analyzeContent_rejected [OF rejected(1,2,3)] analyzeContent_rejected [OF rejected(1,2) g])
  next
    case (empty_text k t)
    from empty_text(3) have g: "generateContent e k
        (composeParts (r\<lparr>req_imageBase64 := None, req_imageMimeType := None\<rparr>)) = Resolves t"
      by (simp only: same)
    show ?thesis
      by (simp add: analyzeContent_empty_text [OF empty_text(1,2,3,4)] analyzeContent_empty_text [OF empty_text(1,2) g empty_text(4)])
  next
    case (answered k t)
    from answered(3) have g: "generateContent e k
        (composeParts (r\<lparr>req_imageBase64 := None, req_imageMimeType := None\<rparr>)) = Resolves (Some t)"
      by (simp only: same)
    show ?thesis
      by (simp add: analyzeContent_text [OF answered(1,2,3,4)] analyzeContent_text [OF answered(1,2) g answered(4)])
  qed
  have sent: "truthy_opt (API_KEY e) \<longrightarrow>
         dispatched (snd (analyzeContent e r w)) =
           dispatched w @ [[TextPart (userEcho (req_text r) @ taskInstruction (req_mode r))]]"
  proof (cases rule: analyzeContent_outcomes [where e = e and r = r])
    case no_key
    then show ?thesis by simp
  next
    case (rejected k ex)
    then show ?thesis by (simp add: analyzeContent_rejected parts)
  next
    case (empty_text k t)
    then show ?thesis by (simp add: analyzeContent_empty_text parts)
  next
    case (answered k t)
    then show ?thesis by (simp add: analyzeContent_text parts)
  qed
  have ok: "\<forall>k t. API_KEY e = Some k \<and> truthy k
          \<and> generateContent e k [TextPart (userEcho (req_text r) @ taskInstruction (req_mode r))]
              = Resolves (Some t) \<and> truthy t \<longrightarrow>
        fst (analyzeContent e r w) = \<lparr>res_markdown = t, res_error = None\<rparr>"
    using parts by (auto simp: analyzeContent_text)
  show ?thesis by (intro conjI) (rule parts sent resp ok)+
qed

theorem analyzeContent_incomplete_image_witness:
  "truthy_opt (req_imageBase64 (helloRequest\<lparr>req_imageBase64 := Some ''data:image/png;base64,QUJD''\<rparr>))
     \<noteq> truthy_opt (req_imageMimeType (helloRequest\<lparr>req_imageBase64 := Some ''data:image/png;base64,QUJD''\<rparr>))
   \<and> composeParts (helloRequest\<lparr>req_imageBase64 := Some ''data:image/png;base64,QUJD''\<rparr>)
     = [TextPart (''User Input: '' @ [CHR 0x22] @ ''Hello'' @ [CHR 0x22, CHR 0x0A, CHR 0x0A]
          @ ''Task: Perform a 'Describe' analysis. Focus on layout, sections, and accessibility relevant details.'')]
   \<and> truthy_opt (API_KEY (fixedEnv (Some ''key'') (Resolves (Some ''## Result'')) True))
   \<and> dispatched (snd (analyzeContent (fixedEnv (Some ''key'') (Resolves (Some ''## Result'')) True)
        (helloRequest\<lparr>req_imageBase64 := Some ''data:image/png;base64,QUJD''\<rparr>) emptyWorld))
     = [[TextPart (''User Input: '' @ [CHR 0x22] @ ''Hello'' @ [CHR 0x22, CHR 0x0A, CHR 0x0A]
          @ ''Task: Perform a 'Describe' analysis. Focus on layout, sections, and accessibility relevant details.'')]]
   \<and> API_KEY (fixedEnv (Some ''key'') (Resolves (Some ''## Result'')) True) = Some ''key''
   \<and> truthy ''key''
   \<and> generateContent (fixedEnv (Some ''key'') (Resolves (Some ''## Result'')) True) ''key''
        [TextPart (userEcho (req_text (helloRequest\<lparr>req_imageBase64 := Some ''data:image/png;base64,QUJD''\<rparr>))
           @ taskInstruction (req_mode (helloRequest\<lparr>req_imageBase64 := Some ''data:image/png;base64,QUJD''\<rparr>)))]
     = Resolves (Some ''## Result'')
   \<and> truthy ''## Result''
   \<and> fst (analyzeContent (fixedEnv (Some ''key'') (Resolves (Some ''## Result'')) True)
        (helloRequest\<lparr>req_imageBase64 := Some ''data:image/png;base64,QUJD''\<rparr>) emptyWorld)
     = \<lparr>res_markdown = ''## Result'', res_error = None\<rparr>"
proof -
  let ?e = "fixedEnv (Some ''key'') (Resolves (Some ''## Result'')) True"
  let ?r = "helloRequest\<lparr>req_imageBase64 := Some ''data:image/png;base64,QUJD''\<rparr>"
  let ?seg = "[TextPart (''User Input: '' @ [CHR 0x22] @ ''Hello'' @ [CHR 0x22, CHR 0x0A, CHR 0x0A]
          @ ''Task: Perform a 'Describe' analysis. Focus on layout, sections, and accessibility relevant details.'')]"
  have h: "truthy_opt (req_imageBase64 ?r) \<noteq> truthy_opt (req_imageMimeType ?r)"
    by (simp add: helloRequest_def truthy_opt_def truthy_def)
  note all = analyzeContent_incomplete_image [OF h, where e = ?e and w = emptyWorld]
  have seg: "[TextPart (userEcho (req_text ?r) @ taskInstruction (req_mode ?r))] = ?seg"
    by (simp add: helloRequest_def userEcho_def)
  have c1: "composeParts ?r = ?seg"
    using all [THEN conjunct1] unfolding seg .
  have key: "truthy_opt (API_KEY ?e)"
    by (simp add: fixedEnv_def truthy_opt_def truthy_def)
  have c2: "dispatched (snd (analyzeContent ?e ?r emptyWorld)) = [?seg]"
    using all [THEN conjunct2, THEN conjunct1, rule_format, OF key] unfolding seg
    by (simp add: emptyWorld_def)
  have k1: "API_KEY ?e = Some ''key''" by (simp add: fixedEnv_def)
  have k2: "truthy ''key''" by (simp add: truthy_def)
  have k3: "generateContent ?e ''key''
        [TextPart (userEcho (req_text ?r) @ taskInstruction (req_mode ?r))]
     = Resolves (Some ''## Result'')"
    by (simp add: fixedEnv_def)
  have k4: "truthy ''## Result''" by (simp add: truthy_def)
  have c3: "fst (analyzeContent ?e ?r emptyWorld)
     = \<lparr>res_markdown = ''## Result'', res_error = None\<rparr>"
    by (rule all [THEN conjunct2, THEN conjunct2, THEN conjunct2, rule_format,
        OF conjI [OF k1 conjI [OF k2 conjI [OF k3 k4]]]])
  show ?thesis
    by (intro conjI) (rule h c1 key c2 k1 k2 k3 k4 c3)+
qed

section \<open>Properties of the session controller\<close>

text \<open>
  C1. For every submission in which both the free text and the selected image are empty
  (the image is null or the empty string), \<open>handleSubmit\<close> returns before it calls
  \<open>analyzeContent\<close>: the only change of the state is the validation error, so the
  session stays idle (\<open>isAnalyzing\<close> keeps its value) and the history is unchanged, and
  nothing outside changes; in particular no call of \<open>analyzeContent\<close> is made and nothing
  is dispatched to the model.
\<close>

theorem handleSubmit_rejects_empty:
  assumes "inputText s = ''''"
    and "selectedImage s = None \<or> selectedImage s = Some ''''"
  shows "handleSubmit e s w =
      (s\<lparr>error := Some ''Please provide either text or an image to analyze.''\<rparr>, w)
    \<and> calls (snd (handleSubmit e s w)) = calls w
    \<and> dispatched (snd (handleSubmit e s w)) = dispatched w
    \<and> error (fst (handleSubmit e s w)) =
        Some ''Please provide either text or an image to analyze.''
    \<and> isAnalyzing (fst (handleSubmit e s w)) = isAnalyzing s
    \<and> history (fst (handleSubmit e s w)) = history s"
proof -
  have "\<not> truthy (inputText s) \<and> \<not> truthy_opt (selectedImage s)"
    using assms by (auto simp: truthy_def truthy_opt_def)
  then have "handleSubmit e s w =
      (s\<lparr>error := Some ''Please provide either text or an image to analyze.''\<rparr>, w)"
    by (simp add: handleSubmit_def)
  then show ?thesis by simp
qed

theorem handleSubmit_rejects_empty_witness:
  "inputText initialState = ''''
   \<and> selectedImage initialState = None
   \<and> handleSubmit (fixedEnv (Some ''key'') (Resolves (Some ''## Result'')) True)
        initialState emptyWorld
     = (initialState\<lparr>error := Some ''Please provide either text or an image to analyze.''\<rparr>,
        emptyWorld)"
proof -
  have h1: "inputText initialState = ''''" by (simp add: initialState_def)
  have h2: "selectedImage initialState = None" by (simp add: initialState_def)
  have h3: "selectedImage initialState = None \<or> selectedImage initialState = Some ''''"
    using h2 by simp
  note rej = handleSubmit_rejects_empty [OF h1 h3, THEN conjunct1]
  show ?thesis by (rule conjI [OF h1] conjI [OF h2])+ (rule rej)
qed

text \<open>
  C4. For every successful analysis (the response carries no error) exactly one history
  item is added: the history after \<open>handleSubmit\<close> is the new item in front of the
  history before it, so the earlier items keep their order. The new item records the
  mode, the input text and the returned markdown. \<open>addToHistory\<close> itself always
  prepends.
\<close>

theorem handleSubmit_success_prepends:
  "(truthy (inputText s) \<or> truthy_opt (selectedImage s))
     \<and> \<not> truthy_opt (res_error (fst (analyzeContent e (requestOf s) w))) \<longrightarrow>
     history (fst (handleSubmit e s w)) =
       newItem e (inputText s) (res_markdown (fst (analyzeContent e (requestOf s) w))) s
         # history s
     \<and> length (history (fst (handleSubmit e s w))) = Suc (length (history s))
     \<and> tl (history (fst (handleSubmit e s w))) = history s
     \<and> item_mode (hd (history (fst (handleSubmit e s w)))) = selectedMode s
     \<and> item_inputText (hd (history (fst (handleSubmit e s w)))) = inputText s
     \<and> item_response (hd (history (fst (handleSubmit e s w)))) =
         res_markdown (fst (analyzeContent e (requestOf s) w))
     \<and> history (fst (addToHistory e text response s w)) =
         newItem e text response s # history s"
proof (intro impI)
  assume a: "(truthy (inputText s) \<or> truthy_opt (selectedImage s))
     \<and> \<not> truthy_opt (res_error (fst (analyzeContent e (requestOf s) w)))"
  have st: "history (fst (handleSubmit e s w)) =
       newItem e (inputText s) (res_markdown (fst (analyzeContent e (requestOf s) w))) s
         # history s"
    using handleSubmit_success_state [of s e w] a by simp
  show "history (fst (handleSubmit e s w)) =
       newItem e (inputText s) (res_markdown (fst (analyzeContent e (requestOf s) w))) s
         # history s
     \<and> length (history (fst (handleSubmit e s w))) = Suc (length (history s))
     \<and> tl (history (fst (handleSubmit e s w))) = history s
     \<and> item_mode (hd (history (fst (handleSubmit e s w)))) = selectedMode s
     \<and> item_inputText (hd (history (fst (handleSubmit e s w)))) = inputText s
     \<and> item_response (hd (history (fst (handleSubmit e s w)))) =
         res_markdown (fst (analyzeContent e (requestOf s) w))
     \<and> history (fst (addToHistory e text response s w)) =
         newItem e text response s # history s"
    unfolding st by (simp add: newItem_def addToHistory_history)
qed

theorem handleSubmit_success_prepends_witness:
  "(truthy (inputText (initialState\<lparr>inputText := ''Hello'', history :=
        [\<lparr>item_id = ''1'', item_timestamp = 1, item_mode = GUIDE, item_inputText = ''Old'',
          item_response = ''Earlier'', item_hasImage = True\<rparr>]\<rparr>))
     \<and> \<not> truthy_opt (res_error (fst (analyzeContent
          (fixedEnv (Some ''key'') (Resolves (Some ''## Result'')) True)
          (requestOf (initialState\<lparr>inputText := ''Hello'', history :=
            [\<lparr>item_id = ''1'', item_timestamp = 1, item_mode = GUIDE, item_inputText = ''Old'',
              item_response = ''Earlier'', item_hasImage = True\<rparr>]\<rparr>)) emptyWorld))))
   \<and> history (fst (handleSubmit (fixedEnv (Some ''key'') (Resolves (Some ''## Result'')) True)
        (initialState\<lparr>inputText := ''Hello'', history :=
          [\<lparr>item_id = ''1'', item_timestamp = 1, item_mode = GUIDE, item_inputText = ''Old'',
            item_response = ''Earlier'', item_hasImage = True\<rparr>]\<rparr>) emptyWorld))
     = [\<lparr>item_id = ''1700000000000'', item_timestamp = 1700000000001, item_mode = DESCRIBE,
         item_inputText = ''Hello'', item_response = ''## Result'', item_hasImage = False\<rparr>,
        \<lparr>item_id = ''1'', item_timestamp = 1, item_mode = GUIDE, item_inputText = ''Old'',
         item_response = ''Earlier'', item_hasImage = True\<rparr>]"
proof -
  let ?e = "fixedEnv (Some ''key'') (Resolves (Some ''## Result'')) True"
  let ?s = "initialState\<lparr>inputText := ''Hello'', history :=
        [\<lparr>item_id = ''1'', item_timestamp = 1, item_mode = GUIDE, item_inputText = ''Old'',
          item_response = ''Earlier'', item_hasImage = True\<rparr>]\<rparr>"
  have resp: "fst (analyzeContent ?e (requestOf ?s) emptyWorld) =
      \<lparr>res_markdown = ''## Result'', res_error = None\<rparr>"
    by (simp add: analyzeContent_def analyzeContent_try_def getClient_def fixedEnv_def
        truthy_def)
  have h: "(truthy (inputText ?s) \<or> truthy_opt (selectedImage ?s))
     \<and> \<not> truthy_opt (res_error (fst (analyzeContent ?e (requestOf ?s) emptyWorld)))"
    unfolding resp by (simp add: initialState_def truthy_def truthy_opt_def)
  have h1: "truthy (inputText ?s)" by (simp add: initialState_def truthy_def)
  note pre = handleSubmit_success_prepends [where e = ?e and s = ?s and w = emptyWorld,
      rule_format, OF h, THEN conjunct1]
  have "history (fst (handleSubmit ?e ?s emptyWorld)) =
      [\<lparr>item_id = ''1700000000000'', item_timestamp = 1700000000001, item_mode = DESCRIBE,
         item_inputText = ''Hello'', item_response = ''## Result'', item_hasImage = False\<rparr>,
        \<lparr>item_id = ''1'', item_timestamp = 1, item_mode = GUIDE, item_inputText = ''Old'',
         item_response = ''Earlier'', item_hasImage = True\<rparr>]"
    unfolding pre resp
    by (simp add: newItem_def fixedEnv_def initialState_def truthy_opt_def toString.simps
        digitChar_def)
  then show ?thesis using h1 h by blast
qed

text \<open>
  C9. When the write of the history to the local storage throws, \<open>addToHistory\<close> catches
  the thrown value and only logs it: the history in memory is the new item in front of
  the previous history, the storage is as it was, and the error shown to the user is not
  touched. After a submission whose analysis succeeded and whose write failed, the
  history has the new item at the front, the response is displayed, and the error slot
  is empty.
\<close>

theorem persistence_failure_logged_only:
  "(setItem e ''accessibility_app_history''
        (stringify e (newItem e input response s # history s)) (localStorage w) = Inl ex \<longrightarrow>
      addToHistory e input response s w =
        (s\<lparr>history := newItem e input response s # history s\<rparr>,
         w\<lparr>console := console w
             @ [(''Failed to save history - likely quota exceeded'', ex)]\<rparr>)
      \<and> history (fst (addToHistory e input response s w)) =
          newItem e input response s # history s
      \<and> error (fst (addToHistory e input response s w)) = error s
      \<and> localStorage (snd (addToHistory e input response s w)) = localStorage w)
   \<and> ((truthy (inputText s) \<or> truthy_opt (selectedImage s))
        \<and> \<not> truthy_opt (res_error (fst (analyzeContent e (requestOf s) w)))
        \<and> setItem e ''accessibility_app_history''
            (stringify e (newItem e (inputText s)
               (res_markdown (fst (analyzeContent e (requestOf s) w))) s # history s))
            (localStorage w) = Inl ex \<longrightarrow>
      history (fst (handleSubmit e s w)) =
        newItem e (inputText s) (res_markdown (fst (analyzeContent e (requestOf s) w))) s
          # history s
      \<and> error (fst (handleSubmit e s w)) = None
      \<and> responseContent (fst (handleSubmit e s w)) =
          res_markdown (fst (analyzeContent e (requestOf s) w))
      \<and> isAnalyzing (fst (handleSubmit e s w)) = False
      \<and> console (snd (handleSubmit e s w)) =
          console w @ [(''Failed to save history - likely quota exceeded'', ex)]
      \<and> localStorage (snd (handleSubmit e s w)) = localStorage w)"
proof (intro conjI impI)
  assume a: "setItem e ''accessibility_app_history''
        (stringify e (newItem e input response s # history s)) (localStorage w) = Inl ex"
  show "addToHistory e input response s w =
        (s\<lparr>history := newItem e input response s # history s\<rparr>,
         w\<lparr>console := console w
             @ [(''Failed to save history - likely quota exceeded'', ex)]\<rparr>)"
    by (rule addToHistory_write_fails [OF a])
  show "history (fst (addToHistory e input response s w)) =
          newItem e input response s # history s"
    by (rule addToHistory_history)
  show "error (fst (addToHistory e input response s w)) = error s"
    by (simp add: addToHistory_state)
  show "localStorage (snd (addToHistory e input response s w)) = localStorage w"
    by (simp add: addToHistory_write_fails [OF a])
next
  let ?resp = "fst (analyzeContent e (requestOf s) w)"
  let ?w1 = "snd (analyzeContent e (requestOf s) w)"
  let ?s2 = "s\<lparr>isAnalyzing := False, error := None, responseContent := res_markdown ?resp\<rparr>"
  assume b: "(truthy (inputText s) \<or> truthy_opt (selectedImage s))
        \<and> \<not> truthy_opt (res_error ?resp)
        \<and> setItem e ''accessibility_app_history''
            (stringify e (newItem e (inputText s) (res_markdown ?resp) s # history s))
            (localStorage w) = Inl ex"
  then have acc: "truthy (inputText s) \<or> truthy_opt (selectedImage s)"
    and ok: "\<not> truthy_opt (res_error ?resp)" by simp_all
  have st: "fst (handleSubmit e s w) =
     s\<lparr>isAnalyzing := False, error := None, responseContent := res_markdown ?resp,
       history := newItem e (inputText s) (res_markdown ?resp) s # history s\<rparr>"
    by (rule handleSubmit_success_state [OF acc ok])
  have w1: "?w1 = w\<lparr>calls := calls w @ [requestOf s],
      dispatched := dispatched w @ [composeParts (requestOf s)]\<rparr>"
    using analyzeContent_success [OF ok] by (metis snd_conv)
  have item: "newItem e (inputText s) (res_markdown ?resp) ?s2 =
      newItem e (inputText s) (res_markdown ?resp) s"
    by (simp add: newItem_def)
  have "setItem e ''accessibility_app_history''
      (stringify e (newItem e (inputText s) (res_markdown ?resp) ?s2 # history ?s2))
      (localStorage ?w1) = Inl ex"
    using b by (simp add: item analyzeContent_localStorage)
  then have add: "addToHistory e (inputText s) (res_markdown ?resp) ?s2 ?w1 =
      (?s2\<lparr>history := newItem e (inputText s) (res_markdown ?resp) ?s2 # history ?s2\<rparr>,
       ?w1\<lparr>console := console ?w1
           @ [(''Failed to save history - likely quota exceeded'', ex)]\<rparr>)"
    by (rule addToHistory_write_fails)
  have hs: "snd (handleSubmit e s w) =
      ?w1\<lparr>console := console ?w1
           @ [(''Failed to save history - likely quota exceeded'', ex)]\<rparr>"
    by (simp add: handleSubmit_accepted [OF acc] ok add)
  show "history (fst (handleSubmit e s w)) =
        newItem e (inputText s) (res_markdown ?resp) s # history s"
    by (simp add: st)
  show "error (fst (handleSubmit e s w)) = None" by (simp add: st)
  show "responseContent (fst (handleSubmit e s w)) = res_markdown ?resp" by (simp add: st)
  show "isAnalyzing (fst (handleSubmit e s w)) = False" by (simp add: st)
  show "console (snd (handleSubmit e s w)) =
          console w @ [(''Failed to save history - likely quota exceeded'', ex)]"
    unfolding hs by (simp add: w1)
  show "localStorage (snd (handleSubmit e s w)) = localStorage w"
    unfolding hs by (simp add: w1)
qed

theorem persistence_failure_logged_only_witness:
  "setItem (fixedEnv (Some ''key'') (Resolves (Some ''## Result'')) False)
      ''accessibility_app_history''
      (stringify (fixedEnv (Some ''key'') (Resolves (Some ''## Result'')) False)
        (newItem (fixedEnv (Some ''key'') (Resolves (Some ''## Result'')) False)
           ''Hello'' ''## Result'' initialState # history initialState))
      (localStorage emptyWorld) = Inl (JsError (Some ''QuotaExceededError''))
   \<and> addToHistory (fixedEnv (Some ''key'') (Resolves (Some ''## Result'')) False)
        ''Hello'' ''## Result'' initialState emptyWorld
     = (initialState\<lparr>history :=
          [\<lparr>item_id = ''1700000000000'', item_timestamp = 1700000000001,
            item_mode = DESCRIBE, item_inputText = ''Hello'', item_response = ''## Result'',
            item_hasImage = False\<rparr>]\<rparr>,
        emptyWorld\<lparr>console := [(''Failed to save history - likely quota exceeded'',
          JsError (Some ''QuotaExceededError''))]\<rparr>)
   \<and> truthy (inputText helloState)
   \<and> \<not> truthy_opt (res_error (fst (analyzeContent
          (fixedEnv (Some ''key'') (Resolves (Some ''## Result'')) False)
          (requestOf helloState) emptyWorld)))
   \<and> setItem (fixedEnv (Some ''key'') (Resolves (Some ''## Result'')) False)
      ''accessibility_app_history''
      (stringify (fixedEnv (Some ''key'') (Resolves (Some ''## Result'')) False)
        (newItem (fixedEnv (Some ''key'') (Resolves (Some ''## Result'')) False)
           (inputText helloState)
           (res_markdown (fst (analyzeContent
              (fixedEnv (Some ''key'') (Resolves (Some ''## Result'')) False)
              (requestOf helloState) emptyWorld)))
           helloState # history helloState))
      (localStorage emptyWorld) = Inl (JsError (Some ''QuotaExceededError''))
   \<and> history (fst (handleSubmit (fixedEnv (Some ''key'') (Resolves (Some ''## Result'')) False)
        helloState emptyWorld))
     = [\<lparr>item_id = ''1700000000000'', item_timestamp = 1700000000001,
         item_mode = DESCRIBE, item_inputText = ''Hello'', item_response = ''## Result'',
         item_hasImage = False\<rparr>]
   \<and> error (fst (handleSubmit (fixedEnv (Some ''key'') (Resolves (Some ''## Result'')) False)
        helloState emptyWorld)) = None
   \<and> console (snd (handleSubmit (fixedEnv (Some ''key'') (Resolves (Some ''## Result'')) False)
        helloState emptyWorld))
     = [(''Failed to save history - likely quota exceeded'',
         JsError (Some ''QuotaExceededError''))]"
proof -
  let ?e = "fixedEnv (Some ''key'') (Resolves (Some ''## Result'')) False"
  have h: "setItem ?e ''accessibility_app_history''
      (stringify ?e (newItem ?e ''Hello'' ''## Result'' initialState # history initialState))
      (localStorage emptyWorld) = Inl (JsError (Some ''QuotaExceededError''))"
    by (simp add: fixedEnv_def)
  note fails = persistence_failure_logged_only [where e = ?e and s = initialState
      and w = emptyWorld and input = "''Hello''" and response = "''## Result''",
      THEN conjunct1, rule_format, OF h, THEN conjunct1]
  have c1: "addToHistory ?e ''Hello'' ''## Result'' initialState emptyWorld
     = (initialState\<lparr>history :=
          [\<lparr>item_id = ''1700000000000'', item_timestamp = 1700000000001,
            item_mode = DESCRIBE, item_inputText = ''Hello'', item_response = ''## Result'',
            item_hasImage = False\<rparr>]\<rparr>,
        emptyWorld\<lparr>console := [(''Failed to save history - likely quota exceeded'',
          JsError (Some ''QuotaExceededError''))]\<rparr>)"
    unfolding fails
    by (simp add: newItem_def fixedEnv_def initialState_def emptyWorld_def truthy_opt_def
        toString.simps digitChar_def)
  have resp: "fst (analyzeContent ?e (requestOf helloState) emptyWorld) =
      \<lparr>res_markdown = ''## Result'', res_error = None\<rparr>"
    by (simp add: analyzeContent_def analyzeContent_try_def getClient_def fixedEnv_def
        truthy_def)
  have g1: "truthy (inputText helloState)"
    by (simp add: helloState_def initialState_def truthy_def)
  have g2: "\<not> truthy_opt (res_error (fst (analyzeContent ?e (requestOf helloState) emptyWorld)))"
    unfolding resp by (simp add: truthy_opt_def)
  have g3: "setItem ?e ''accessibility_app_history''
      (stringify ?e (newItem ?e (inputText helloState)
         (res_markdown (fst (analyzeContent ?e (requestOf helloState) emptyWorld)))
         helloState # history helloState))
      (localStorage emptyWorld) = Inl (JsError (Some ''QuotaExceededError''))"
    by (simp add: fixedEnv_def)
  note sub = persistence_failure_logged_only [where e = ?e and s = helloState
      and w = emptyWorld, THEN conjunct2, rule_format,
      OF conjI [OF disjI1 [OF g1] conjI [OF g2 g3]]]
  have c2: "history (fst (handleSubmit ?e helloState emptyWorld))
     = [\<lparr>item_id = ''1700000000000'', item_timestamp = 1700000000001,
         item_mode = DESCRIBE, item_inputText = ''Hello'', item_response = ''## Result'',
         item_hasImage = False\<rparr>]"
    unfolding sub [THEN conjunct1] resp
    by (simp add: newItem_def fixedEnv_def helloState_def initialState_def truthy_opt_def
        toString.simps digitChar_def)
  have c3: "error (fst (handleSubmit ?e helloState emptyWorld)) = None"
    by (rule sub [THEN conjunct2, THEN conjunct1])
  have c4: "console (snd (handleSubmit ?e helloState emptyWorld))
     = [(''Failed to save history - likely quota exceeded'',
         JsError (Some ''QuotaExceededError''))]"
    using sub [THEN conjunct2, THEN conjunct2, THEN conjunct2, THEN conjunct2, THEN conjunct1]
    by (simp add: emptyWorld_def)
  show ?thesis
    by (intro conjI) (rule h c1 g1 g2 g3 c2 c3 c4)+
qed

text \<open>
  C5, as the code has it. Loading a history item sets the mode, the input text and the
  response text to those of the item, clears the error and closes the history drawer.
  It never restores an image: the selected image and its MIME type are cleared when the
  item's \<open>hasImage\<close> flag is set and are left as they are otherwise. The history is not
  changed, and loading the same item twice gives the state that loading it once gives.
\<close>

theorem loadHistoryItem_restores:
  "selectedMode (loadHistoryItem item s) = item_mode item
   \<and> inputText (loadHistoryItem item s) = item_inputText item
   \<and> responseContent (loadHistoryItem item s) = item_response item
   \<and> error (loadHistoryItem item s) = None
   \<and> showHistory (loadHistoryItem item s) = False
   \<and> selectedImage (loadHistoryItem item s) =
       (if item_hasImage item then None else selectedImage s)
   \<and> imageMimeType (loadHistoryItem item s) =
       (if item_hasImage item then None else imageMimeType s)
   \<and> isAnalyzing (loadHistoryItem item s) = isAnalyzing s
   \<and> history (loadHistoryItem item s) = history s
   \<and> loadHistoryItem item (loadHistoryItem item s) = loadHistoryItem item s"
  by (simp add: loadHistoryItem_def Let_def)

text \<open>
  C5 as stated, that loading always clears the selected image, fails for an item
  without image: the image selected before the load is still selected after it.
\<close>

theorem loadHistoryItem_counterexample:
  "selectedImage (loadHistoryItem
      \<lparr>item_id = ''1700000000000'', item_timestamp = 1700000000001, item_mode = SIMPLIFY,
        item_inputText = ''Hello'', item_response = ''## Result'', item_hasImage = False\<rparr>
      (initialState\<lparr>selectedImage := Some ''data:image/png;base64,QUJD'',
        imageMimeType := Some ''image/png''\<rparr>))
   = Some ''data:image/png;base64,QUJD''"
  by (simp add: loadHistoryItem_def initialState_def)

end
